theory Spec2Isabelle
  imports Main "HOL-Library.AList"
begin

section \<open>JavaScript values\<close>

text \<open>
  The program is a browser script. Its project state, the documents it imports and
  exports, the request payloads and the backend responses are JavaScript values built
  from JSON data. They are modelled by one datatype. An object is the list of its own
  enumerable properties in the order \<^verbatim>\<open>Object.keys\<close> lists them. An array has its
  elements, where \<open>None\<close> is a hole left by \<^verbatim>\<open>delete\<close>, and the named properties
  written to it. Strings are byte strings (text outside ASCII stands in UTF-8). A
  number is given by the text the engine writes for it (\<^verbatim>\<open>String(x)\<close>, as in
  \<^verbatim>\<open>0\<close>, \<^verbatim>\<open>1.5\<close> or \<^verbatim>\<open>1e+21\<close>): the program only tests a number for being
  zero or \<^verbatim>\<open>NaN\<close>, writes it as text, or uses it as a property name. No value is a
  function: the values come from \<^verbatim>\<open>JSON.parse\<close> and from the program's own strings.
\<close>

datatype jsval =
    JUndefined
  | JNull
  | JBool bool
  | JNum string
  | JStr string
  | JArr "jsval option list" "(string \<times> jsval) list"
  | JObj "(string \<times> jsval) list"

text \<open>Truthiness, as tested by \<^verbatim>\<open>if (x)\<close>, \<^verbatim>\<open>!x\<close> and \<^verbatim>\<open>x || y\<close>.\<close>

fun truthy :: "jsval \<Rightarrow> bool" where
  "truthy JUndefined = False"
| "truthy JNull = False"
| "truthy (JBool b) = b"
| "truthy (JNum n) = (n \<noteq> ''0'' \<and> n \<noteq> ''NaN'')"
| "truthy (JStr s) = (s \<noteq> [])"
| "truthy (JArr es ps) = True"
| "truthy (JObj ps) = True"

definition js_or :: "jsval \<Rightarrow> jsval \<Rightarrow> jsval" where
  "js_or a b = (if truthy a then a else b)"

fun typeof :: "jsval \<Rightarrow> string" where
  "typeof JUndefined = ''undefined''"
| "typeof JNull = ''object''"
| "typeof (JBool b) = ''boolean''"
| "typeof (JNum n) = ''number''"
| "typeof (JStr s) = ''string''"
| "typeof (JArr es ps) = ''object''"
| "typeof (JObj ps) = ''object''"

text \<open>Decimal digits of a natural number: the name of an array index, and the text of
  a status code or of \<^verbatim>\<open>Date.now()\<close>.\<close>

fun decimal :: "nat \<Rightarrow> string" where
  "decimal n =
     (if n < 10 then [''0123456789'' ! n]
      else decimal (n div 10) @ [''0123456789'' ! (n mod 10)])"

declare decimal.simps [simp del]

fun join :: "string \<Rightarrow> string list \<Rightarrow> string" where
  "join sep [] = []"
| "join sep [x] = x"
| "join sep (x # y # ys) = x @ sep @ join sep (y # ys)"

text \<open>
  The conversion of a value to text, made by a template literal, by a property access
  \<^verbatim>\<open>obj[x]\<close> and by the assignment of a value to a text field of the page. It is
  \<open>None\<close> where the engine throws a \<^verbatim>\<open>TypeError\<close>: no value of the model is a
  function, so an object or array with an own property \<^verbatim>\<open>toString\<close> has no method
  to call (\<^verbatim>\<open>valueOf\<close> gives the object back). An array is the texts of its elements
  joined by commas, with nothing for a hole, \<^verbatim>\<open>null\<close> and \<^verbatim>\<open>undefined\<close>; with an
  own property \<^verbatim>\<open>join\<close> it is \<^verbatim>\<open>[object Array]\<close>.
\<close>

fun toStr :: "jsval \<Rightarrow> string option" where
  "toStr JUndefined = Some ''undefined''"
| "toStr JNull = Some ''null''"
| "toStr (JBool b) = Some (if b then ''true'' else ''false'')"
| "toStr (JNum n) = Some n"
| "toStr (JStr s) = Some s"
| "toStr (JArr es ps) =
     (if ''toString'' \<in> fst ` set ps then None
      else if ''join'' \<in> fst ` set ps then Some ''[object Array]''
      else map_option (join '','')
             (those (map (\<lambda>e. case e of
                                  None \<Rightarrow> Some []
                                | Some x \<Rightarrow> if x = JUndefined \<or> x = JNull then Some []
                                            else toStr x) es)))"
| "toStr (JObj ps) =
     (if ''toString'' \<in> fst ` set ps then None else Some ''[object Object]'')"

text \<open>\<^verbatim>\<open>name.endsWith(suf)\<close>\<close>

definition endsWith :: "string \<Rightarrow> string \<Rightarrow> bool" where
  "endsWith s suf = (length suf \<le> length s \<and> drop (length s - length suf) s = suf)"

subsection \<open>Properties\<close>

text \<open>
  Own enumerable properties. The elements of an array are its properties under their
  indices, before its named properties. What the prototypes define (such as
  \<^verbatim>\<open>constructor\<close> or \<^verbatim>\<open>toString\<close>) and the \<^verbatim>\<open>length\<close> of an array are not part of
  the model, so \<open>getProp\<close>, \<open>setProp\<close> and \<open>deleteProp\<close> are the engine's read, write
  and \<^verbatim>\<open>delete\<close> for every name other than these: in particular for every name ending
  in \<^verbatim>\<open>.dart\<close>. A new property of an object is put after the existing ones, as the
  engine does for a name that is not an array index; every name the program writes
  ends in \<^verbatim>\<open>.dart\<close>. A value that is not an object or an array is read as having no
  properties, and a write to it gives an object: the default state holds an object in
  \<^verbatim>\<open>state.files\<close>, and \<^verbatim>\<open>importProject\<close> puts nothing but an object or an array
  there.
\<close>

fun elemProps :: "nat \<Rightarrow> jsval option list \<Rightarrow> (string \<times> jsval) list" where
  "elemProps i [] = []"
| "elemProps i (None # es) = elemProps (Suc i) es"
| "elemProps i (Some x # es) = (decimal i, x) # elemProps (Suc i) es"

fun ownProps :: "jsval \<Rightarrow> (string \<times> jsval) list" where
  "ownProps (JObj ps) = ps"
| "ownProps (JArr es ps) = elemProps 0 es @ ps"
| "ownProps v = []"

definition keys :: "jsval \<Rightarrow> string list" where
  "keys v = map fst (ownProps v)"

definition getProp :: "jsval \<Rightarrow> string \<Rightarrow> jsval" where
  "getProp v k = (case map_of (ownProps v) k of Some x \<Rightarrow> x | None \<Rightarrow> JUndefined)"

text \<open>
  An array index is the decimal name of a number below 4294967295. A write to an
  array under an index sets that element, after holes where the array was shorter; a
  write under another name sets a named property. \<^verbatim>\<open>delete\<close> under an index leaves a
  hole.
\<close>

definition arrayIndex :: "string \<Rightarrow> nat option" where
  "arrayIndex k =
     (if k \<noteq> [] \<and> set k \<subseteq> set ''0123456789'' \<and> (length k = 1 \<or> hd k \<noteq> CHR ''0'')
      then (let n = foldl (\<lambda>a c. 10 * a + length (takeWhile (\<lambda>d. d \<noteq> c) ''0123456789'')) 0 k
            in if n < 4294967295 then Some n else None)
      else None)"

fun setElem :: "nat \<Rightarrow> jsval \<Rightarrow> jsval option list \<Rightarrow> jsval option list" where
  "setElem i x es =
     (if i < length es then es[i := Some x]
      else es @ replicate (i - length es) None @ [Some x])"

fun dropElem :: "string \<Rightarrow> nat \<Rightarrow> jsval option list \<Rightarrow> jsval option list" where
  "dropElem k i [] = []"
| "dropElem k i (e # es) = (if decimal i = k then None else e) # dropElem k (Suc i) es"

fun setProp :: "jsval \<Rightarrow> string \<Rightarrow> jsval \<Rightarrow> jsval" where
  "setProp (JArr es ps) k x =
     (case arrayIndex k of
        Some i \<Rightarrow> JArr (setElem i x es) ps
      | None \<Rightarrow> JArr es (AList.update k x ps))"
| "setProp v k x = JObj (AList.update k x (ownProps v))"

fun deleteProp :: "jsval \<Rightarrow> string \<Rightarrow> jsval" where
  "deleteProp (JArr es ps) k = JArr (dropElem k 0 es) (AList.delete k ps)"
| "deleteProp v k = JObj (AList.delete k (ownProps v))"

text \<open>
  \<^verbatim>\<open>JSON.parse(JSON.stringify(v))\<close> on values: a property whose value is
  \<^verbatim>\<open>undefined\<close> is left out; of an array the elements are written, \<^verbatim>\<open>null\<close> for a
  hole and for \<^verbatim>\<open>undefined\<close>, and the named properties are left out; a number that
  is not finite becomes \<^verbatim>\<open>null\<close>. Text written to storage, downloaded or sent to a
  backend is modelled by the JSON value it denotes.
\<close>

fun jsonify :: "jsval \<Rightarrow> jsval" where
  "jsonify (JObj ps) =
     JObj (map (\<lambda>p. (fst p, jsonify (snd p))) (filter (\<lambda>p. snd p \<noteq> JUndefined) ps))"
| "jsonify (JArr es ps) =
     JArr (map (\<lambda>e. case e of
                       None \<Rightarrow> Some JNull
                     | Some x \<Rightarrow> Some (if x = JUndefined then JNull else jsonify x)) es) []"
| "jsonify (JNum n) =
     (if n = ''NaN'' \<or> n = ''Infinity'' \<or> n = ''-Infinity'' then JNull else JNum n)"
| "jsonify v = v"

section \<open>Constants of the program\<close>

definition LS_KEY :: string where
  "LS_KEY = ''dartpad_mini_project_v1''"

definition BACKENDS :: "string list" where
  "BACKENDS =
     [''https://v1.api.dartpad.dev/api/dartservices/v2'',
      ''https://dart-services.appspot.com/api/dartservices/v2'']"

definition DEFAULT_main :: string where
  "DEFAULT_main =
     ''// Welcome to mini DartPad (Dart only)\<newline>''
     @ ''// You can add more files with the + button (e.g., utils.dart)\<newline>''
     @ ''// Then import them in main.dart:\<newline>'' @ ''//   import '' @ [CHR 0x27]
     @ ''utils.dart'' @ [CHR 0x27] @ '';\<newline>\<newline>'' @ ''import '' @ [CHR 0x27]
     @ ''dart:html'' @ [CHR 0x27] @ '';\<newline>\<newline>''
     @ ''void main() {\<newline>'' @ ''  querySelector('' @ [CHR 0x27] @ ''#app''
     @ [CHR 0x27] @ '')?.text = '' @ [CHR 0x27] @ ''Hello from Dart!'' @ [CHR 0x27]
     @ '';\<newline>'' @ ''  print('' @ [CHR 0x27] @ ''Hello, console!'' @ [CHR 0x27]
     @ '');\<newline>'' @ ''}\<newline>''"

definition msg_extension :: string where
  "msg_extension =
     [CHR 0xE6, CHR 0x8B, CHR 0xA1, CHR 0xE5, CHR 0xBC, CHR 0xB5]
     @ [CHR 0xE5, CHR 0xAD, CHR 0x90, CHR 0xE3, CHR 0x81, CHR 0xAF] @ '' .dart ''
     @ [CHR 0xE3, CHR 0x81, CHR 0xAB, CHR 0xE3, CHR 0x81, CHR 0x97]
     @ [CHR 0xE3, CHR 0x81, CHR 0xA6, CHR 0xE3, CHR 0x81, CHR 0x8F]
     @ [CHR 0xE3, CHR 0x81, CHR 0xA0, CHR 0xE3, CHR 0x81, CHR 0x95]
     @ [CHR 0xE3, CHR 0x81, CHR 0x84]"

definition msg_duplicate :: string where
  "msg_duplicate =
     [CHR 0xE5, CHR 0x90, CHR 0x8C, CHR 0xE5, CHR 0x90, CHR 0x8D]
     @ [CHR 0xE3, CHR 0x83, CHR 0x95, CHR 0xE3, CHR 0x82, CHR 0xA1]
     @ [CHR 0xE3, CHR 0x82, CHR 0xA4, CHR 0xE3, CHR 0x83, CHR 0xAB]
     @ [CHR 0xE3, CHR 0x81, CHR 0x8C, CHR 0xE6, CHR 0x97, CHR 0xA2]
     @ [CHR 0xE3, CHR 0x81, CHR 0xAB, CHR 0xE3, CHR 0x81, CHR 0x82]
     @ [CHR 0xE3, CHR 0x82, CHR 0x8A, CHR 0xE3, CHR 0x81, CHR 0xBE]
     @ [CHR 0xE3, CHR 0x81, CHR 0x99]"

definition msg_last_file :: string where
  "msg_last_file =
     [CHR 0xE6, CHR 0x9C, CHR 0x80, CHR 0xE4, CHR 0xBD, CHR 0x8E] @ ''1''
     @ [CHR 0xE3, CHR 0x83, CHR 0x95, CHR 0xE3, CHR 0x82, CHR 0xA1]
     @ [CHR 0xE3, CHR 0x82, CHR 0xA4, CHR 0xE3, CHR 0x83, CHR 0xAB]
     @ [CHR 0xE3, CHR 0x81, CHR 0xAF, CHR 0xE5, CHR 0xBF, CHR 0x85]
     @ [CHR 0xE8, CHR 0xA6, CHR 0x81, CHR 0xE3, CHR 0x81, CHR 0xA7]
     @ [CHR 0xE3, CHR 0x81, CHR 0x99]"

definition msg_compiling :: string where
  "msg_compiling =
     [CHR 0xE3, CHR 0x82, CHR 0xB3, CHR 0xE3, CHR 0x83, CHR 0xB3]
     @ [CHR 0xE3, CHR 0x83, CHR 0x91, CHR 0xE3, CHR 0x82, CHR 0xA4]
     @ [CHR 0xE3, CHR 0x83, CHR 0xAB, CHR 0xE4, CHR 0xB8, CHR 0xAD]
     @ [CHR 0xE2, CHR 0x80, CHR 0xA6]"

definition msg_running :: string where
  "msg_running =
     [CHR 0xE5, CHR 0xAE, CHR 0x9F, CHR 0xE8, CHR 0xA1, CHR 0x8C]
     @ [CHR 0xE4, CHR 0xB8, CHR 0xAD, CHR 0xE2, CHR 0x80, CHR 0xA6]"

definition msg_done :: string where
  "msg_done =
     [CHR 0xE5, CHR 0xAE, CHR 0x8C, CHR 0xE4, CHR 0xBA, CHR 0x86]"

definition msg_compile_failed :: string where
  "msg_compile_failed =
     [CHR 0xE3, CHR 0x82, CHR 0xB3, CHR 0xE3, CHR 0x83, CHR 0xB3]
     @ [CHR 0xE3, CHR 0x83, CHR 0x91, CHR 0xE3, CHR 0x82, CHR 0xA4]
     @ [CHR 0xE3, CHR 0x83, CHR 0xAB, CHR 0xE5, CHR 0xA4, CHR 0xB1]
     @ [CHR 0xE6, CHR 0x95, CHR 0x97] @ '': ''"

definition msg_imported :: string where
  "msg_imported =
     [CHR 0xE3, CHR 0x82, CHR 0xA4, CHR 0xE3, CHR 0x83, CHR 0xB3]
     @ [CHR 0xE3, CHR 0x83, CHR 0x9D, CHR 0xE3, CHR 0x83, CHR 0xBC]
     @ [CHR 0xE3, CHR 0x83, CHR 0x88, CHR 0xE5, CHR 0xAE, CHR 0x8C]
     @ [CHR 0xE4, CHR 0xBA, CHR 0x86]"

definition msg_import_failed :: string where
  "msg_import_failed =
     [CHR 0xE3, CHR 0x82, CHR 0xA4, CHR 0xE3, CHR 0x83, CHR 0xB3]
     @ [CHR 0xE3, CHR 0x83, CHR 0x9D, CHR 0xE3, CHR 0x83, CHR 0xBC]
     @ [CHR 0xE3, CHR 0x83, CHR 0x88, CHR 0xE5, CHR 0xA4, CHR 0xB1]
     @ [CHR 0xE6, CHR 0x95, CHR 0x97] @ '': ''"

definition msg_bad_format :: string where
  "msg_bad_format =
     [CHR 0xE4, CHR 0xB8, CHR 0x8D, CHR 0xE6, CHR 0xAD, CHR 0xA3]
     @ [CHR 0xE3, CHR 0x81, CHR 0xAA, CHR 0xE5, CHR 0xBD, CHR 0xA2]
     @ [CHR 0xE5, CHR 0xBC, CHR 0x8F]"

definition msg_no_main :: string where
  "msg_no_main =
     ''main.dart'' @ [CHR 0xE3, CHR 0x81, CHR 0x8C, CHR 0xE5, CHR 0xAD, CHR 0x98]
     @ [CHR 0xE5, CHR 0x9C, CHR 0xA8, CHR 0xE3, CHR 0x81, CHR 0x97]
     @ [CHR 0xE3, CHR 0x81, CHR 0xBE, CHR 0xE3, CHR 0x81, CHR 0x9B]
     @ [CHR 0xE3, CHR 0x82, CHR 0x93]"

definition msg_no_sdk :: string where
  "msg_no_sdk =
     ''dart_sdk_new.js '' @ [CHR 0xE3, CHR 0x81, CHR 0x8C, CHR 0xE8, CHR 0xAA, CHR 0xAD]
     @ [CHR 0xE3, CHR 0x81, CHR 0xBF, CHR 0xE8, CHR 0xBE, CHR 0xBC]
     @ [CHR 0xE3, CHR 0x81, CHR 0xBE, CHR 0xE3, CHR 0x82, CHR 0x8C]
     @ [CHR 0xE3, CHR 0x81, CHR 0xA6, CHR 0xE3, CHR 0x81, CHR 0x84]
     @ [CHR 0xE3, CHR 0x81, CHR 0xBE, CHR 0xE3, CHR 0x81, CHR 0x9B]
     @ [CHR 0xE3, CHR 0x82, CHR 0x93]"

definition msg_empty_result :: string where
  "msg_empty_result =
     [CHR 0xE3, CHR 0x82, CHR 0xB3, CHR 0xE3, CHR 0x83, CHR 0xB3]
     @ [CHR 0xE3, CHR 0x83, CHR 0x91, CHR 0xE3, CHR 0x82, CHR 0xA4]
     @ [CHR 0xE3, CHR 0x83, CHR 0xAB, CHR 0xE7, CHR 0xB5, CHR 0x90]
     @ [CHR 0xE6, CHR 0x9E, CHR 0x9C, CHR 0xE3, CHR 0x81, CHR 0x8C]
     @ [CHR 0xE7, CHR 0xA9, CHR 0xBA, CHR 0xE3, CHR 0x81, CHR 0xA7]
     @ [CHR 0xE3, CHR 0x81, CHR 0x99]"


definition DEFAULT_FILES :: jsval where
  "DEFAULT_FILES = JObj [(''main.dart'', JStr DEFAULT_main)]"

section \<open>Application state\<close>

text \<open>
  \<open>files\<close> and \<open>active\<close> are the two fields of the global \<^verbatim>\<open>state\<close>; \<open>storage\<close> is
  the document under \<open>LS_KEY\<close> in local storage; \<open>alerts\<close> lists the messages shown by
  \<^verbatim>\<open>alert\<close>; the status line has its text, its \<^verbatim>\<open>data-kind\<close> and the milliseconds left
  on \<^verbatim>\<open>statusTimer\<close> when it is pending; \<open>console\<close> holds the lines of the console panel
  (class name and text); \<open>preview\<close> is the text of the compiled script loaded into the iframe;
  \<open>requests\<close> lists the POST requests sent (URL and body). The file list, the editor
  and the line numbers are drawn from the state and are not modelled.
\<close>

record app =
  files :: jsval
  active :: jsval
  storage :: "jsval option"
  alerts :: "string list"
  status_text :: string
  status_kind :: string
  status_timer :: "nat option"
  console :: "(string \<times> string) list"
  preview :: "string option"
  requests :: "(string \<times> jsval) list"

text \<open>\<^verbatim>\<open>persist\<close> writes \<^verbatim>\<open>JSON.stringify(state)\<close> to local storage; the write is
  taken to succeed.\<close>

definition persist :: "app \<Rightarrow> app" where
  "persist s =
     s\<lparr>storage := Some (jsonify (JObj [(''files'', files s), (''active'', active s)]))\<rparr>"

definition alert :: "string \<Rightarrow> app \<Rightarrow> app" where
  "alert msg s = s\<lparr>alerts := alerts s @ [msg]\<rparr>"

text \<open>
  A function of the program that converts a value to text either returns or leaves
  with the \<^verbatim>\<open>TypeError\<close> of the engine. Both outcomes carry the state: the
  assignments made before the exception stay.
\<close>

datatype 'a outcome = Done 'a | Threw 'a

fun stateOf :: "'a outcome \<Rightarrow> 'a" where
  "stateOf (Done s) = s"
| "stateOf (Threw s) = s"

fun threw :: "'a outcome \<Rightarrow> bool" where
  "threw (Done s) = False"
| "threw (Threw s) = True"

text \<open>\<^verbatim>\<open>state.files[state.active]\<close> converts \<^verbatim>\<open>state.active\<close> to a property name.\<close>

definition ensureActiveExists :: "app \<Rightarrow> app outcome" where
  "ensureActiveExists s =
     (case toStr (active s) of
        None \<Rightarrow> Threw s
      | Some a \<Rightarrow>
          Done (if \<not> truthy (getProp (files s) a)
                then s\<lparr>active :=
                       js_or (case keys (files s) of [] \<Rightarrow> JUndefined | k # ks \<Rightarrow> JStr k)
                             (JStr ''main.dart'')\<rparr>
                else s))"

text \<open>
  \<^verbatim>\<open>setActive\<close> converts \<^verbatim>\<open>name\<close> to a property name, and after the assignment to
  \<^verbatim>\<open>state.active\<close> it converts the content of the file to text for the editor
  (\<^verbatim>\<open>UI.editor.value = state.files[name]\<close>); \<^verbatim>\<open>persist\<close> comes after both.
\<close>

definition setActive :: "jsval \<Rightarrow> app \<Rightarrow> app outcome" where
  "setActive name s =
     (case toStr name of
        None \<Rightarrow> Threw s
      | Some k \<Rightarrow>
          if \<not> truthy (getProp (files s) k) then Done s
          else
            (case toStr (getProp (files s) k) of
               None \<Rightarrow> Threw (s\<lparr>active := name\<rparr>)
             | Some txt \<Rightarrow> Done (persist (s\<lparr>active := name\<rparr>))))"

section \<open>File operations\<close>

text \<open>
  \<^verbatim>\<open>prompt\<close> returns the text entered, or \<^verbatim>\<open>null\<close> (\<open>None\<close>) when the dialog is
  cancelled; \<^verbatim>\<open>confirm\<close> returns the user's answer. The three functions are event
  handlers: an exception that leaves one is reported by the browser, and the page goes
  on with the state as the exception left it.
\<close>

definition promptNewFile :: "string option \<Rightarrow> app \<Rightarrow> app" where
  "promptNewFile answer s =
     (case answer of
        None \<Rightarrow> s
      | Some name \<Rightarrow>
          if name = [] then s
          else if \<not> endsWith name ''.dart'' then alert msg_extension s
          else if truthy (getProp (files s) name) then alert msg_duplicate s
          else stateOf (setActive (JStr name)
                 (persist (s\<lparr>files :=
                    setProp (files s) name (JStr (''// '' @ name @ ''\<newline>''))\<rparr>))))"

definition promptRename :: "string \<Rightarrow> string option \<Rightarrow> app \<Rightarrow> app" where
  "promptRename oldName answer s =
     (case answer of
        None \<Rightarrow> s
      | Some name \<Rightarrow>
          if name = [] \<or> name = oldName then s
          else if \<not> endsWith name ''.dart'' then alert msg_extension s
          else if truthy (getProp (files s) name) then alert msg_duplicate s
          else
            let s1 = s\<lparr>files := setProp (files s) name (getProp (files s) oldName)\<rparr>;
                s2 = s1\<lparr>files := deleteProp (files s1) oldName\<rparr>;
                s3 = (if active s2 = JStr oldName then s2\<lparr>active := JStr name\<rparr> else s2);
                s4 = persist s3
            in stateOf (setActive (active s4) s4))"

definition promptDelete :: "string \<Rightarrow> bool \<Rightarrow> app \<Rightarrow> app" where
  "promptDelete name confirmed s =
     (if length (keys (files s)) = 1 then alert msg_last_file s
      else if \<not> confirmed then s
      else
        (case ensureActiveExists (s\<lparr>files := deleteProp (files s) name\<rparr>) of
           Threw s2 \<Rightarrow> s2
         | Done s2 \<Rightarrow> (let s3 = persist s2 in stateOf (setActive (active s3) s3))))"

text \<open>A run of file operations, each with the user's answers to its dialogs.\<close>

datatype file_op =
    NewFile "string option"
  | Rename string "string option"
  | Delete string bool

fun apply_op :: "file_op \<Rightarrow> app \<Rightarrow> app" where
  "apply_op (NewFile answer) s = promptNewFile answer s"
| "apply_op (Rename oldName answer) s = promptRename oldName answer s"
| "apply_op (Delete name confirmed) s = promptDelete name confirmed s"

fun run :: "file_op list \<Rightarrow> app \<Rightarrow> app" where
  "run [] s = s"
| "run (x # xs) s = run xs (apply_op x s)"

section \<open>Status line and console\<close>

definition setStatus :: "string \<Rightarrow> bool \<Rightarrow> app \<Rightarrow> app" where
  "setStatus msg isError s =
     s\<lparr>status_text := msg,
       status_kind := (if isError then ''error'' else ''ok''),
       status_timer := (if \<not> isError then Some 3000 else None)\<rparr>"

text \<open>The passing of \<open>t\<close> milliseconds: a pending \<^verbatim>\<open>statusTimer\<close> that is due clears
  the text of the status line.\<close>

definition elapse :: "nat \<Rightarrow> app \<Rightarrow> app" where
  "elapse t s =
     (case status_timer s of
        None \<Rightarrow> s
      | Some d \<Rightarrow>
          if d \<le> t then s\<lparr>status_text := [], status_timer := None\<rparr>
          else s\<lparr>status_timer := Some (d - t)\<rparr>)"

definition appendConsole :: "string \<Rightarrow> string \<Rightarrow> app \<Rightarrow> app" where
  "appendConsole level txt s =
     s\<lparr>console := console s @ [(''log '' @ level, ''['' @ level @ ''] '' @ txt)]\<rparr>"

text \<open>\<^verbatim>\<open>runInIframe\<close> wraps the compiled script, converted to text by the template
  literal, into a fixed HTML document and loads it into the preview frame. Nothing is
  loaded when the conversion throws.\<close>

definition runInIframe :: "jsval \<Rightarrow> app \<Rightarrow> app outcome" where
  "runInIframe compiledJS s =
     (case toStr compiledJS of
        None \<Rightarrow> Threw s
      | Some txt \<Rightarrow> Done (s\<lparr>preview := Some txt\<rparr>))"

section \<open>Errors and the environment\<close>

text \<open>A thrown error object: its name, message and stack.\<close>

datatype jserror = JsError (err_name: string) (message: string) (stack: string)

text \<open>\<^verbatim>\<open>String(e)\<close> and \<^verbatim>\<open>e.stack || String(e)\<close>, \<^verbatim>\<open>e.message || e\<close> (in a string
  concatenation).\<close>

definition errorString :: "jserror \<Rightarrow> string" where
  "errorString e =
     (if err_name e = [] then message e
      else if message e = [] then err_name e
      else err_name e @ '': '' @ message e)"

definition stackOrString :: "jserror \<Rightarrow> string" where
  "stackOrString e = (if stack e \<noteq> [] then stack e else errorString e)"

definition messageOrString :: "jserror \<Rightarrow> string" where
  "messageOrString e = (if message e \<noteq> [] then message e else errorString e)"

text \<open>
  What a \<^verbatim>\<open>fetch\<close> gives: a rejected promise, or a response with its \<^verbatim>\<open>ok\<close> flag,
  status, status text and the outcome of \<^verbatim>\<open>res.json()\<close>.
\<close>

datatype fetch_result =
    Rejected jserror
  | Response bool nat string "jserror + jsval"

text \<open>
  The environment of the script: the network (URL and request body to result), the stack
  trace the engine attaches to an error the program creates with a given message, the
  \<^verbatim>\<open>TypeError\<close> the engine throws on reading a named property of \<^verbatim>\<open>null\<close>, the
  \<^verbatim>\<open>TypeError\<close> it throws when a conversion to text fails in a given function of the
  program, and the compiler entry point \<^verbatim>\<open>dart.dart2js\<close> of the local runtime when
  it is loaded.
\<close>

record env =
  fetch :: "string \<Rightarrow> jsval \<Rightarrow> fetch_result"
  stackOf :: "string \<Rightarrow> string"
  nullError :: "string \<Rightarrow> jserror"
  convError :: "string \<Rightarrow> jserror"
  dart2js :: "(string \<Rightarrow> jserror + jsval) option"

definition newError :: "env \<Rightarrow> string \<Rightarrow> jserror" where
  "newError e msg = JsError ''Error'' msg (stackOf e msg)"

section \<open>Backend helpers\<close>

text \<open>The body of the \<^verbatim>\<open>try\<close> block of \<^verbatim>\<open>postJSON\<close> for one backend.\<close>

definition attempt :: "env \<Rightarrow> string \<Rightarrow> jsval \<Rightarrow> jserror + jsval" where
  "attempt e url body =
     (case fetch e url body of
        Rejected err \<Rightarrow> Inl err
      | Response ok status statusText parsed \<Rightarrow>
          if \<not> ok then Inl (newError e (decimal status @ '' '' @ statusText))
          else parsed)"

text \<open>The loop of \<^verbatim>\<open>postJSON\<close> over the remaining backends, with \<^verbatim>\<open>lastErr\<close>. The
  result comes with the requests sent.\<close>

fun tryBackends ::
  "env \<Rightarrow> string \<Rightarrow> jsval \<Rightarrow> string list \<Rightarrow> jserror option
    \<Rightarrow> (string \<times> jsval) list \<times> (jserror + jsval)" where
  "tryBackends e path payload [] lastErr =
     ([], Inl (case lastErr of Some err \<Rightarrow> err | None \<Rightarrow> newError e ''All backends failed''))"
| "tryBackends e path payload (base # rest) lastErr =
     (let url = base @ ''/'' @ path; body = jsonify payload in
      case attempt e url body of
        Inr json \<Rightarrow> ([(url, body)], Inr json)
      | Inl err \<Rightarrow>
          (case tryBackends e path payload rest (Some err) of
             (sent, r) \<Rightarrow> ((url, body) # sent, r)))"

definition postJSON ::
  "env \<Rightarrow> string \<Rightarrow> jsval \<Rightarrow> (string \<times> jsval) list \<times> (jserror + jsval)" where
  "postJSON e path payload = tryBackends e path payload BACKENDS None"

definition buildSourcePayload :: "bool \<Rightarrow> app \<Rightarrow> jsval" where
  "buildSourcePayload singleOnly s =
     (let files0 = JObj (ownProps (files s));
          files1 = (if \<not> truthy (getProp files0 ''main.dart'')
                    then setProp files0 ''main.dart'' (getProp DEFAULT_FILES ''main.dart'')
                    else files0)
      in if singleOnly then JObj [(''source'', getProp files1 ''main.dart'')]
         else JObj [(''sources'', files1), (''source'', getProp files1 ''main.dart'')])"

section \<open>Compile and run\<close>

text \<open>\<^verbatim>\<open>json.result || json.compiledJS || json.compiledJavascript || json.js\<close>; the
  first read throws when the response is \<^verbatim>\<open>null\<close>.\<close>

definition compiledOf :: "env \<Rightarrow> jsval \<Rightarrow> jserror + jsval" where
  "compiledOf e json =
     (if json = JNull \<or> json = JUndefined then Inl (nullError e ''result'')
      else Inr (js_or (js_or (js_or (getProp json ''result'') (getProp json ''compiledJS''))
                             (getProp json ''compiledJavascript''))
                      (getProp json ''js'')))"

text \<open>The \<^verbatim>\<open>try\<close> block of \<^verbatim>\<open>compileAndRun\<close> up to the compiled script: the
  requests sent, and the script or the error thrown.\<close>

definition compileRemote ::
  "env \<Rightarrow> app \<Rightarrow> (string \<times> jsval) list \<times> (jserror + jsval)" where
  "compileRemote e s =
     (case postJSON e ''compile'' (buildSourcePayload False s) of
        (sent1, Inl err) \<Rightarrow> (sent1, Inl err)
      | (sent1, Inr json) \<Rightarrow>
          (case compiledOf e json of
             Inl err \<Rightarrow> (sent1, Inl err)
           | Inr js \<Rightarrow>
               if truthy js then (sent1, Inr js)
               else
                 (case postJSON e ''compile'' (buildSourcePayload True s) of
                    (sent2, Inl err) \<Rightarrow> (sent1 @ sent2, Inl err)
                  | (sent2, Inr json2) \<Rightarrow>
                      (case compiledOf e json2 of
                         Inl err \<Rightarrow> (sent1 @ sent2, Inl err)
                       | Inr js2 \<Rightarrow>
                           if truthy js2 then (sent1 @ sent2, Inr js2)
                           else (sent1 @ sent2,
                                 Inl (newError e
                                   ''Compiled JavaScript not found in response''))))))"

text \<open>The \<^verbatim>\<open>catch\<close> block of \<^verbatim>\<open>compileAndRun\<close>.\<close>

definition compileFailed :: "jserror \<Rightarrow> app \<Rightarrow> app" where
  "compileFailed err s =
     appendConsole ''error'' (stackOrString err)
       (setStatus (msg_compile_failed @ message err) True s)"

definition compileAndRun :: "env \<Rightarrow> app \<Rightarrow> app" where
  "compileAndRun e s =
     (let s1 = setStatus msg_compiling False s;
          s2 = s1\<lparr>console := []\<rparr>
      in case compileRemote e s2 of
           (sent, Inr js) \<Rightarrow>
             (case runInIframe js
                     (setStatus msg_running False (s2\<lparr>requests := requests s2 @ sent\<rparr>)) of
                Done s3 \<Rightarrow> setStatus msg_done False s3
              | Threw s3 \<Rightarrow> compileFailed (convError e ''runInIframe'') s3)
         | (sent, Inl err) \<Rightarrow>
             compileFailed err (s2\<lparr>requests := requests s2 @ sent\<rparr>))"

text \<open>The variant of the program that compiles with the local runtime. The source is
  converted to text for \<^verbatim>\<open>encoder.encode\<close> before the runtime is looked for.\<close>

definition compileLocal :: "env \<Rightarrow> app \<Rightarrow> jserror + jsval" where
  "compileLocal e s =
     (let mainCode = getProp (files s) ''main.dart'' in
      if \<not> truthy mainCode then Inl (newError e msg_no_main)
      else
        (case toStr mainCode of
           None \<Rightarrow> Inl (convError e ''compileAndRun'')
         | Some src \<Rightarrow>
             (case dart2js e of
                None \<Rightarrow> Inl (newError e msg_no_sdk)
              | Some compile \<Rightarrow>
                  (case compile src of
                     Inl err \<Rightarrow> Inl err
                   | Inr js \<Rightarrow>
                       if \<not> truthy js then Inl (newError e msg_empty_result) else Inr js))))"

definition compileFailed_local :: "jserror \<Rightarrow> app \<Rightarrow> app" where
  "compileFailed_local err s =
     (let s1 = compileFailed err s
      in s1\<lparr>console := console s1 @ [(''log error'', ''[error] '' @ messageOrString err)]\<rparr>)"

definition compileAndRun_local :: "env \<Rightarrow> app \<Rightarrow> app" where
  "compileAndRun_local e s =
     (let s1 = setStatus msg_compiling False s;
          s2 = s1\<lparr>console := []\<rparr>
      in case compileLocal e s2 of
           Inr js \<Rightarrow>
             (case runInIframe js (setStatus msg_running False s2) of
                Done s3 \<Rightarrow> setStatus msg_done False s3
              | Threw s3 \<Rightarrow> compileFailed_local (convError e ''runInIframe'') s3)
         | Inl err \<Rightarrow> compileFailed_local err s2)"

section \<open>Import and export\<close>

text \<open>The document \<^verbatim>\<open>exportProject\<close> offers for download, \<open>ts\<close> being \<^verbatim>\<open>Date.now()\<close>,
  the milliseconds since the epoch.\<close>

definition exportProject :: "nat \<Rightarrow> app \<Rightarrow> jsval" where
  "exportProject ts s =
     jsonify (JObj [(''files'', files s), (''active'', active s), (''ts'', JNum (decimal ts))])"

text \<open>\<^verbatim>\<open>importProject\<close>, from the outcome of \<^verbatim>\<open>JSON.parse\<close> on the text of the file.
  An exception of \<^verbatim>\<open>setActive\<close> is caught like the others, after the new state has
  been stored.\<close>

definition importFailed :: "jserror \<Rightarrow> app \<Rightarrow> app" where
  "importFailed err s = setStatus (msg_import_failed @ message err) True s"

definition importProject :: "env \<Rightarrow> jserror + jsval \<Rightarrow> app \<Rightarrow> app" where
  "importProject e parsed s =
     (case parsed of
        Inl err \<Rightarrow> importFailed err s
      | Inr obj \<Rightarrow>
          if obj = JNull \<or> obj = JUndefined then importFailed (nullError e ''files'') s
          else if \<not> truthy (getProp obj ''files'') \<or> typeof (getProp obj ''files'') \<noteq> ''object''
          then importFailed (newError e msg_bad_format) s
          else
            let s1 = s\<lparr>files := getProp obj ''files''\<rparr>;
                s2 = s1\<lparr>active := js_or (getProp obj ''active'') (JStr ''main.dart'')\<rparr>;
                s3 = persist s2
            in (case setActive (active s3) s3 of
                  Done s4 \<Rightarrow> setStatus msg_imported False s4
                | Threw s4 \<Rightarrow> importFailed (convError e ''setActive'') s4))"


section \<open>The store behind the request payload\<close>

text \<open>
  \<^verbatim>\<open>buildSourcePayload\<close> copies \<^verbatim>\<open>state.files\<close> into a new object and writes to the
  copy. To tell the copy from the original, objects live in a store: the address of an
  object is its position in the store, a new object is put at the end. The global
  \<^verbatim>\<open>state\<close> holds the address of its \<^verbatim>\<open>files\<close> object and the value of
  \<^verbatim>\<open>active\<close>; a field of the payload is a value or the address of an object. The
  copy \<^verbatim>\<open>{...state.files}\<close> is a plain object with the own properties of the
  original.
\<close>

type_synonym store = "jsval list"

record state_ref =
  filesRef :: nat
  activeVal :: jsval

datatype pval = Val jsval | Ref nat

definition buildSourcePayload_store ::
  "bool \<Rightarrow> store \<times> state_ref \<Rightarrow> (store \<times> state_ref) \<times> (string \<times> pval) list" where
  "buildSourcePayload_store singleOnly hs =
     (let h = fst hs; st = snd hs;
          a = length h;
          h1 = h @ [JObj (ownProps (h ! filesRef st))];
          h2 = (if \<not> truthy (getProp (h1 ! a) ''main.dart'')
                then h1[a := setProp (h1 ! a) ''main.dart'' (getProp DEFAULT_FILES ''main.dart'')]
                else h1);
          src = getProp (h2 ! a) ''main.dart''
      in ((h2, st),
          if singleOnly then [(''source'', Val src)]
          else [(''sources'', Ref a), (''source'', Val src)]))"

text \<open>The payload as a value: each address replaced by the object it points to.\<close>

definition deref :: "store \<Rightarrow> (string \<times> pval) list \<Rightarrow> jsval" where
  "deref h p =
     JObj (map (\<lambda>kv. (fst kv, case snd kv of Val v \<Rightarrow> v | Ref a \<Rightarrow> h ! a)) p)"

section \<open>Notions of the specification\<close>

text \<open>The pointer \<open>active\<close> is a key of \<open>files\<close>: it is the name of one of the files.\<close>

definition activeIsKey :: "app \<Rightarrow> bool" where
  "activeIsKey s = (case active s of JStr a \<Rightarrow> a \<in> set (keys (files s)) | _ \<Rightarrow> False)"

text \<open>A valid project state: \<open>files\<close> is not empty and \<open>active\<close> is one of its keys
  (an object has every key once).\<close>

definition validProject :: "app \<Rightarrow> bool" where
  "validProject s = (distinct (keys (files s)) \<and> keys (files s) \<noteq> [] \<and> activeIsKey s)"

text \<open>Every key is a file name of the data model: it ends in \<^verbatim>\<open>.dart\<close>.\<close>

definition fileNames :: "app \<Rightarrow> bool" where
  "fileNames s = (\<forall>k \<in> set (keys (files s)). endsWith k ''.dart'')"

text \<open>
  The values \<^verbatim>\<open>JSON.parse\<close> returns: no \<^verbatim>\<open>undefined\<close>, no number that is not
  finite, and arrays without holes and without named properties.
\<close>

fun jsonValue :: "jsval \<Rightarrow> bool" where
  "jsonValue JUndefined = False"
| "jsonValue JNull = True"
| "jsonValue (JBool b) = True"
| "jsonValue (JNum n) = (n \<noteq> ''NaN'' \<and> n \<noteq> ''Infinity'' \<and> n \<noteq> ''-Infinity'')"
| "jsonValue (JStr s) = True"
| "jsonValue (JArr es ps) =
     (ps = [] \<and> list_all (\<lambda>e. case e of None \<Rightarrow> False | Some x \<Rightarrow> jsonValue x) es)"
| "jsonValue (JObj ps) = list_all (\<lambda>p. jsonValue (snd p)) ps"

text \<open>The fields probed for the compiled script, in order, and the first of them that is
  truthy.\<close>

definition compileFields :: "string list" where
  "compileFields = [''result'', ''compiledJS'', ''compiledJavascript'', ''js'']"

definition firstTruthy :: "jsval \<Rightarrow> jsval option" where
  "firstTruthy json = find truthy (map (getProp json) compileFields)"

text \<open>The parsed response of a request that completes with an ok status and a body that
  parses; a request that completes without a transport error or a non-ok status.\<close>

definition answerOf :: "fetch_result \<Rightarrow> jsval option" where
  "answerOf r =
     (case r of
        Rejected err \<Rightarrow> None
      | Response ok status statusText parsed \<Rightarrow>
          (case parsed of Inl err \<Rightarrow> None | Inr json \<Rightarrow> if ok then Some json else None))"

definition completes :: "fetch_result \<Rightarrow> bool" where
  "completes r = (case r of Rejected err \<Rightarrow> False | Response ok status statusText parsed \<Rightarrow> ok)"

definition endpoint :: "string \<Rightarrow> string \<Rightarrow> string" where
  "endpoint base path = base @ ''/'' @ path"

section \<open>Example states\<close>

definition app_of :: "(string \<times> jsval) list \<Rightarrow> string \<Rightarrow> app" where
  "app_of ps a =
     \<lparr>files = JObj ps, active = JStr a, storage = None, alerts = [], status_text = [],
      status_kind = [], status_timer = None, console = [], preview = None, requests = []\<rparr>"

text \<open>The example project of the specification.\<close>

definition example_project :: app where
  "example_project = app_of [(''main.dart'', JStr ''void main(){}'')] ''main.dart''"

text \<open>A project with a file whose content has been cleared in the editor.\<close>

definition cleared_project :: app where
  "cleared_project = app_of [(''a.dart'', JStr ''''), (''b.dart'', JStr ''x'')] ''b.dart''"


section \<open>Example environments\<close>

text \<open>An engine that attaches no stack trace, and its errors for a read from
  \<^verbatim>\<open>null\<close> and for a conversion to text that fails.\<close>

definition no_stack :: "string \<Rightarrow> string" where "no_stack msg = []"

definition null_read :: "string \<Rightarrow> jserror" where
  "null_read p =
     JsError ''TypeError''
       (''Cannot read properties of null (reading '' @ [CHR 0x27] @ p @ [CHR 0x27] @ '')'') []"

definition no_text :: "string \<Rightarrow> jserror" where
  "no_text f = JsError ''TypeError'' ''Cannot convert object to primitive value'' []"

text \<open>A response with a compiled script.\<close>

definition accepted :: fetch_result where
  "accepted = Response True 200 ''OK'' (Inr (JObj [(''result'', JStr ''main();'')]))"

text \<open>The first backend cannot be reached, the second answers.\<close>

definition reject_then_accept :: env where
  "reject_then_accept =
     \<lparr>fetch = (\<lambda>url body.
         if url = endpoint (BACKENDS ! 0) ''compile''
         then Rejected (JsError ''TypeError'' ''Failed to fetch'' [])
         else accepted),
      stackOf = no_stack, nullError = null_read, convError = no_text, dart2js = None\<rparr>"

text \<open>The first backend answers with status 200 and a body that is not JSON, the
  second answers.\<close>

definition page_then_accept :: env where
  "page_then_accept =
     \<lparr>fetch = (\<lambda>url body.
         if url = endpoint (BACKENDS ! 0) ''compile''
         then Response True 200 ''OK'' (Inl (JsError ''SyntaxError'' ''Unexpected token'' []))
         else accepted),
      stackOf = no_stack, nullError = null_read, convError = no_text, dart2js = None\<rparr>"

text \<open>The first backend cannot be reached, the second answers with status 503.\<close>

definition all_fail :: env where
  "all_fail =
     \<lparr>fetch = (\<lambda>url body.
         if url = endpoint (BACKENDS ! 0) ''compile''
         then Rejected (JsError ''TypeError'' ''Failed to fetch'' [])
         else Response False 503 ''Service Unavailable'' (Inr JNull)),
      stackOf = no_stack, nullError = null_read, convError = no_text, dart2js = None\<rparr>"

text \<open>A request payload.\<close>

definition source_only :: jsval where
  "source_only = JObj [(''source'', JStr ''void main(){}'')]"

text \<open>A backend that finds no script for a request with a \<^verbatim>\<open>sources\<close> field and
  answers a request without one under the field \<^verbatim>\<open>js\<close>.\<close>

definition retry_env :: env where
  "retry_env =
     \<lparr>fetch = (\<lambda>url body.
         if getProp body ''sources'' \<noteq> JUndefined
         then Response True 200 ''OK'' (Inr (JObj [(''error'', JStr ''unknown field'')]))
         else Response True 200 ''OK'' (Inr (JObj [(''js'', JStr ''main();'')]))),
      stackOf = no_stack, nullError = null_read, convError = no_text, dart2js = None\<rparr>"



text \<open>The two payloads built from the example project.\<close>

definition both_fields :: jsval where
  "both_fields =
     JObj [(''sources'', JObj [(''main.dart'', JStr ''void main(){}'')]),
           (''source'', JStr ''void main(){}'')]"


text \<open>No network and no local runtime.\<close>

definition no_runtime :: env where
  "no_runtime =
     \<lparr>fetch = (\<lambda>url body. Rejected (JsError ''TypeError'' ''Failed to fetch'' [])),
      stackOf = no_stack, nullError = null_read, convError = no_text, dart2js = None\<rparr>"

text \<open>A local runtime that returns an empty script.\<close>

definition empty_runtime :: env where
  "empty_runtime =
     \<lparr>fetch = (\<lambda>url body. Rejected (JsError ''TypeError'' ''Failed to fetch'' [])),
      stackOf = no_stack, nullError = null_read, convError = no_text,
      dart2js = Some (\<lambda>source. Inr (JStr []))\<rparr>"

text \<open>A store with the files object of a project without \<^verbatim>\<open>main.dart\<close>.\<close>

definition one_file_store :: store where
  "one_file_store = [JObj [(''utils.dart'', JStr ''int f() => 1;'')]]"

definition one_file_state :: state_ref where
  "one_file_state = \<lparr>filesRef = 0, activeVal = JStr ''utils.dart''\<rparr>"

section \<open>States reached through the program\<close>

text \<open>A project file with two files, one of them with the empty name, and the project
  after its import.\<close>

definition unnamed_document :: jsval where
  "unnamed_document =
     JObj [(''files'', JObj [('''', JStr ''x''), (''a.dart'', JStr ''y'')]),
           (''active'', JStr ''a.dart'')]"

definition unnamed_project :: app where
  "unnamed_project = importProject no_runtime (Inr unnamed_document) example_project"

text \<open>The project after the import of a file with one file of the empty name, and a
  click on that file in the list.\<close>

definition unnamed_active :: app where
  "unnamed_active =
     stateOf (setActive (JStr '''')
       (importProject no_runtime (Inr (JObj [(''files'', JObj [('''', JStr ''x'')])]))
          example_project))"

text \<open>The project after the import of a file whose \<^verbatim>\<open>files\<close> is an array,
  \<^verbatim>\<open>{"files": ["x"]}\<close>, and the addition of \<^verbatim>\<open>utils.dart\<close>.\<close>

definition array_project :: app where
  "array_project =
     promptNewFile (Some ''utils.dart'')
       (importProject no_runtime (Inr (JObj [(''files'', JArr [Some (JStr ''x'')] [])]))
          example_project)"

text \<open>A project file whose \<^verbatim>\<open>active\<close> is an object:
  \<^verbatim>\<open>{"files": {"main.dart": "x"}, "active": {"toString": 0}}\<close>.\<close>

definition object_active :: jsval where
  "object_active =
     JObj [(''files'', JObj [(''main.dart'', JStr ''x'')]),
           (''active'', JObj [(''toString'', JNum ''0'')])]"

text \<open>The project after the import of a file whose \<^verbatim>\<open>main.dart\<close> holds an object in
  the place of text: \<^verbatim>\<open>{"files": {"main.dart": {"toString": 0}}}\<close>.\<close>

definition object_project :: app where
  "object_project =
     importProject no_runtime
       (Inr (JObj [(''files'', JObj [(''main.dart'', JObj [(''toString'', JNum ''0'')])])]))
       example_project"

text \<open>The example project after \<^verbatim>\<open>promptRename\<close> is called for a name that is not a
  file and answered with a new name.\<close>

definition renamed_missing :: app where
  "renamed_missing = promptRename ''ghost.dart'' (Some ''b.dart'') example_project"

section \<open>Properties of the helpers\<close>

text \<open>A name that ends in \<^verbatim>\<open>.dart\<close> is not an array index.\<close>

lemma decimal_digits: "set (decimal n) \<subseteq> set ''0123456789''"
proof (induction n rule: decimal.induct)
  case (1 n)
  define D where "D = ''0123456789''"
  have len: "length D = 10" by (simp add: D_def)
  have d: "\<And>m. m < 10 \<Longrightarrow> D ! m \<in> set D" using len by simp
  have eq: "decimal n = (if n < 10 then [D ! n] else decimal (n div 10) @ [D ! (n mod 10)])"
    unfolding D_def by (rule decimal.simps)
  have ih: "\<not> n < 10 \<Longrightarrow> set (decimal (n div 10)) \<subseteq> set D"
    unfolding D_def by (rule 1)
  have "set (decimal n) \<subseteq> set D"
  proof (cases "n < 10")
    case True
    with d [of n] show ?thesis by (simp only: eq if_True list.set insert_subset empty_subsetI simp_thms)
  next
    case False
    have "n mod 10 < 10" by simp
    from d [OF this] ih [OF False] False show ?thesis
      by (simp only: eq if_False set_append list.set Un_subset_iff insert_subset
          empty_subsetI simp_thms)
  qed
  then show ?case by (simp only: D_def)
qed

lemma endsWith_dart_t: "endsWith k ''.dart'' \<Longrightarrow> CHR ''t'' \<in> set k"
proof -
  assume "endsWith k ''.dart''"
  then have "drop (length k - length ''.dart'') k = ''.dart''"
    unfolding endsWith_def by (rule conjunct2)
  then have "CHR ''t'' \<in> set (drop (length k - length ''.dart'') k)" by simp
  then show ?thesis by (rule in_set_dropD)
qed

lemma not_digit: "CHR ''t'' \<notin> set ''0123456789''"
  by simp

lemma dart_not_decimal: "endsWith k ''.dart'' \<Longrightarrow> decimal i \<noteq> k"
proof
  assume k: "endsWith k ''.dart''" and eq: "decimal i = k"
  from decimal_digits [of i] not_digit have "CHR ''t'' \<notin> set (decimal i)" by blast
  with endsWith_dart_t [OF k] eq show False by blast
qed

lemma dart_not_index: "endsWith k ''.dart'' \<Longrightarrow> arrayIndex k = None"
proof -
  assume "endsWith k ''.dart''"
  then have "CHR ''t'' \<in> set k" by (rule endsWith_dart_t)
  with not_digit have "(set k \<subseteq> set ''0123456789'') = False" by blast
  then show ?thesis by (simp only: arrayIndex_def simp_thms if_False)
qed

lemma keys_elemProps: "k \<in> fst ` set (elemProps i es) \<Longrightarrow> \<exists>j. k = decimal j"
proof (induction es arbitrary: i)
  case Nil
  then show ?case by simp
next
  case (Cons e es)
  show ?case
  proof (cases e)
    case None
    with Cons.prems have "k \<in> fst ` set (elemProps (Suc i) es)" by simp
    then show ?thesis by (rule Cons.IH)
  next
    case (Some x)
    with Cons.prems have "k = decimal i \<or> k \<in> fst ` set (elemProps (Suc i) es)" by simp
    then show ?thesis
    proof
      assume "k = decimal i"
      then show ?thesis ..
    next
      assume "k \<in> fst ` set (elemProps (Suc i) es)"
      then show ?thesis by (rule Cons.IH)
    qed
  qed
qed

lemma dart_not_elem: "endsWith k ''.dart'' \<Longrightarrow> k \<notin> fst ` set (elemProps i es)"
proof
  assume k: "endsWith k ''.dart''" and "k \<in> fst ` set (elemProps i es)"
  then obtain j where "k = decimal j" using keys_elemProps by blast
  with dart_not_decimal [OF k, of j] show False by simp
qed

lemma keys_setProp:
  "endsWith k ''.dart'' \<Longrightarrow>
   keys (setProp v k x) = (if k \<in> set (keys v) then keys v else keys v @ [k])"
  by (cases v) (auto simp: keys_def update_keys dart_not_index dart_not_elem)

lemma keys_dropElem:
  "map fst (elemProps i (dropElem k i es)) = removeAll k (map fst (elemProps i es))"
proof (induction es arbitrary: i)
  case Nil
  then show ?case by simp
next
  case (Cons e es)
  then show ?case by (cases e) auto
qed

lemma keys_deleteProp: "keys (deleteProp v k) = removeAll k (keys v)"
  by (cases v) (simp_all add: keys_def delete_keys keys_dropElem)

lemma getProp_setProp:
  "endsWith k ''.dart'' \<Longrightarrow>
   getProp (setProp v k x) k' = (if k' = k then x else getProp v k')"
proof (cases v)
  case (JArr es ps)
  assume k: "endsWith k ''.dart''"
  then have "map_of (elemProps 0 es) k = None"
    using dart_not_elem [of k 0 es] by (simp add: map_of_eq_None_iff)
  with k JArr show ?thesis
    by (simp add: getProp_def dart_not_index map_add_def update_conv'
        split: option.splits)
qed (simp_all add: getProp_def update_conv')

lemma getProp_not_key: "k \<notin> set (keys v) \<Longrightarrow> getProp v k = JUndefined"
  by (simp add: getProp_def keys_def map_of_eq_None_iff[THEN iffD2])

lemma truthy_getProp_key: "truthy (getProp v k) \<Longrightarrow> k \<in> set (keys v)"
  using getProp_not_key by fastforce

lemma update_new_key: "k \<notin> fst ` set ps \<Longrightarrow> AList.update k x ps = ps @ [(k, x)]"
  by (induction ps) auto

lemma endsWith_nonempty: "endsWith s ''.dart'' \<Longrightarrow> s \<noteq> []"
  by (auto simp: endsWith_def)

lemma files_persist [simp]: "files (persist s) = files s"
  by (simp add: persist_def)

lemma active_persist [simp]: "active (persist s) = active s"
  by (simp add: persist_def)

lemma files_setActive [simp]: "files (stateOf (setActive n s)) = files s"
  by (simp add: setActive_def split: option.splits)

lemma active_setActive:
  "active (stateOf (setActive n s)) =
     (case toStr n of
        None \<Rightarrow> active s
      | Some k \<Rightarrow> if truthy (getProp (files s) k) then n else active s)"
  by (simp add: setActive_def split: option.splits)

lemma files_ensureActiveExists [simp]: "files (stateOf (ensureActiveExists s)) = files s"
  by (simp add: ensureActiveExists_def split: option.splits)

text \<open>An accepted import.\<close>

lemma importProject_accepted:
  assumes "truthy (getProp obj ''files'')" and "typeof (getProp obj ''files'') = ''object''"
  shows "importProject e (Inr obj) s =
           (let s3 = persist (s\<lparr>files := getProp obj ''files'',
                                 active := js_or (getProp obj ''active'') (JStr ''main.dart'')\<rparr>)
            in case setActive (active s3) s3 of
                 Done s4 \<Rightarrow> setStatus msg_imported False s4
               | Threw s4 \<Rightarrow> importFailed (convError e ''setActive'') s4)"
proof -
  from assms(1) have "obj \<noteq> JNull" "obj \<noteq> JUndefined"
    by (auto simp: getProp_def)
  with assms show ?thesis
    by (simp add: importProject_def Let_def)
qed

lemma import_fields:
  assumes "truthy (getProp obj ''files'')" and "typeof (getProp obj ''files'') = ''object''"
  shows "files (importProject e (Inr obj) s) = getProp obj ''files''"
    and "active (importProject e (Inr obj) s) = js_or (getProp obj ''active'') (JStr ''main.dart'')"
    and "storage (importProject e (Inr obj) s)
           = Some (jsonify (JObj [(''files'', getProp obj ''files''),
                (''active'', js_or (getProp obj ''active'') (JStr ''main.dart''))]))"
  using assms
  by (simp_all add: importProject_accepted setStatus_def importFailed_def Let_def
      setActive_def persist_def split: option.splits)

section \<open>The active file stays a key\<close>

text \<open>The invariant of the file operations, spelt out.\<close>

lemma invariant_unfold:
  "(validProject s \<and> fileNames s) =
     (distinct (keys (files s)) \<and>
      (\<forall>k \<in> set (keys (files s)). endsWith k ''.dart'') \<and>
      (\<exists>a. active s = JStr a \<and> a \<in> set (keys (files s))))"
  by (auto simp: validProject_def fileNames_def activeIsKey_def split: jsval.splits)

lemma invariant_promptNewFile:
  "validProject s \<and> fileNames s \<Longrightarrow>
   validProject (promptNewFile answer s) \<and> fileNames (promptNewFile answer s)"
  unfolding invariant_unfold
  by (cases answer)
     (auto simp: promptNewFile_def alert_def keys_setProp getProp_setProp active_setActive)

lemma invariant_promptRename:
  "validProject s \<and> fileNames s \<Longrightarrow>
   validProject (promptRename oldName answer s) \<and> fileNames (promptRename oldName answer s)"
  unfolding invariant_unfold
  by (cases answer)
     (auto simp: promptRename_def alert_def keys_setProp keys_deleteProp getProp_setProp
        Let_def distinct_removeAll active_setActive)

lemma removeAll_nonempty:
  "distinct xs \<Longrightarrow> length xs \<noteq> Suc 0 \<Longrightarrow> xs \<noteq> [] \<Longrightarrow> removeAll x xs \<noteq> []"
  by (cases xs; cases "tl xs") auto

text \<open>\<^verbatim>\<open>ensureActiveExists\<close> does not throw when \<open>active\<close> is text, and repairs the
  pointer when a file with a name is left.\<close>

lemma ensureActiveExists_text:
  "active s = JStr a \<Longrightarrow> ensureActiveExists s = Done (stateOf (ensureActiveExists s))"
  by (simp add: ensureActiveExists_def)

lemma ensureActiveExists_repairs:
  assumes "keys (files s) \<noteq> []" and "\<forall>k \<in> set (keys (files s)). k \<noteq> []"
    and "\<exists>a. active s = JStr a"
  shows "\<exists>a. active (stateOf (ensureActiveExists s)) = JStr a \<and> a \<in> set (keys (files s))"
proof -
  from assms(3) obtain a where a: "active s = JStr a" by blast
  show ?thesis
  proof (cases "truthy (getProp (files s) a)")
    case True
    then have "a \<in> set (keys (files s))"
      by (rule truthy_getProp_key)
    with True a show ?thesis
      by (simp add: ensureActiveExists_def)
  next
    case False
    obtain k ks where ks: "keys (files s) = k # ks"
      using assms(1) by (cases "keys (files s)") auto
    with assms(2) have "k \<noteq> []" by simp
    with False ks a show ?thesis
      by (simp add: ensureActiveExists_def js_or_def)
  qed
qed

lemma invariant_promptDelete:
  assumes "validProject s \<and> fileNames s"
  shows "validProject (promptDelete name confirmed s) \<and>
         fileNames (promptDelete name confirmed s)"
proof (cases "length (keys (files s)) = 1 \<or> \<not> confirmed")
  case True
  with assms show ?thesis
    unfolding invariant_unfold by (auto simp: promptDelete_def alert_def)
next
  case False
  let ?s1 = "s\<lparr>files := deleteProp (files s) name\<rparr>"
  from assms have d: "distinct (keys (files s))" and ne: "keys (files s) \<noteq> []"
    and fn: "\<forall>k \<in> set (keys (files s)). endsWith k ''.dart''"
    and a: "\<exists>a. active s = JStr a"
    unfolding invariant_unfold by auto
  from d ne False have ne1: "keys (files ?s1) \<noteq> []"
    by (simp add: keys_deleteProp removeAll_nonempty)
  from fn have fn1: "\<forall>k \<in> set (keys (files ?s1)). k \<noteq> []"
    by (auto simp: keys_deleteProp dest: endsWith_nonempty)
  from a have a1: "\<exists>a. active ?s1 = JStr a" by simp
  from a1 obtain a' where "active ?s1 = JStr a'" by blast
  then have "ensureActiveExists ?s1 = Done (stateOf (ensureActiveExists ?s1))"
    by (rule ensureActiveExists_text)
  then obtain s2 where s2: "ensureActiveExists ?s1 = Done s2" ..
  from ensureActiveExists_repairs [OF ne1 fn1 a1]
  obtain b where b: "active s2 = JStr b" "b \<in> set (keys (files ?s1))"
    unfolding s2 by auto
  have f2: "files s2 = files ?s1"
    using files_ensureActiveExists [of ?s1] unfolding s2 by simp
  have res: "promptDelete name confirmed s =
      (let s3 = persist s2 in stateOf (setActive (active s3) s3))"
    using False by (simp add: promptDelete_def s2)
  have "files (promptDelete name confirmed s) = files ?s1"
    by (simp add: res Let_def f2)
  moreover have "active (promptDelete name confirmed s) = JStr b"
    using b by (simp add: res Let_def active_setActive f2)
  ultimately show ?thesis
    unfolding invariant_unfold
    using b d fn by (auto simp: keys_deleteProp distinct_removeAll)
qed

lemma invariant_apply_op:
  "validProject s \<and> fileNames s \<Longrightarrow>
   validProject (apply_op x s) \<and> fileNames (apply_op x s)"
  by (cases x) (simp_all add: invariant_promptNewFile invariant_promptRename
      invariant_promptDelete del: One_nat_def)

lemma invariant_run:
  "validProject s \<and> fileNames s \<Longrightarrow> validProject (run xs s) \<and> fileNames (run xs s)"
proof (induction xs arbitrary: s)
  case Nil
  then show ?case by simp
next
  case (Cons x xs)
  from Cons.prems have "validProject (apply_op x s) \<and> fileNames (apply_op x s)"
    by (rule invariant_apply_op)
  then show ?case
    using Cons.IH by simp
qed

lemma unnamed_project_fields:
  "files unnamed_project = JObj [('''', JStr ''x''), (''a.dart'', JStr ''y'')]"
  "active unnamed_project = JStr ''a.dart''"
  by (simp_all add: unnamed_project_def unnamed_document_def import_fields getProp_def
      js_or_def)

text \<open>
  C1, as stated: from any state with a non-empty \<open>files\<close> and \<open>active\<close> one of its
  keys, \<open>active\<close> is a key of \<open>files\<close> after any run of file operations. This fails
  for a file whose name is the empty string, which an import brings in: the project
  after the import has two files and its \<open>active\<close> is one of them; when that file is
  deleted, \<^verbatim>\<open>Object.keys(state.files)[0] || 'main.dart'\<close> takes the empty name of the
  other for no name and points \<open>active\<close> at \<^verbatim>\<open>main.dart\<close>, which is not a file.
\<close>

theorem active_key_counterexample:
  "validProject unnamed_project \<and>
   \<not> activeIsKey (run [Delete ''a.dart'' True] unnamed_project)"
  by (simp add: validProject_def activeIsKey_def unnamed_project_fields keys_def
      promptDelete_def ensureActiveExists_def getProp_def js_or_def
      active_setActive Let_def)

text \<open>
  C1, amended: from any valid project state whose keys are file names (each ends in
  \<^verbatim>\<open>.dart\<close>, as every name that the add and rename operations accept), \<open>active\<close> is a
  key of \<open>files\<close> after any run of add, rename and delete operations, whatever the user
  answers in the dialogs.
\<close>

theorem active_key_invariant:
  "validProject s \<Longrightarrow> fileNames s \<Longrightarrow> activeIsKey (run ops s)"
  using invariant_run [of s ops] by (simp add: validProject_def)

theorem active_key_invariant_witness:
  "validProject example_project \<and> fileNames example_project \<and>
   activeIsKey (run [NewFile (Some ''utils.dart''), Delete ''main.dart'' True] example_project)"
  using active_key_invariant
    [of example_project "[NewFile (Some ''utils.dart''), Delete ''main.dart'' True]"]
  by (simp add: validProject_def fileNames_def activeIsKey_def example_project_def
      app_of_def keys_def endsWith_def)

section \<open>Refused operations\<close>

text \<open>
  C2: in a state whose \<open>files\<close> has exactly one key, \<^verbatim>\<open>promptDelete\<close> on any name shows
  the alert and changes nothing else: \<open>files\<close>, \<open>active\<close> and the stored document are
  as before, whatever the name and without asking for confirmation.
\<close>

theorem promptDelete_last_file_refused:
  "length (keys (files s)) = 1 \<Longrightarrow>
   promptDelete name confirmed s = s\<lparr>alerts := alerts s @ [msg_last_file]\<rparr> \<and>
   files (promptDelete name confirmed s) = files s \<and>
   active (promptDelete name confirmed s) = active s \<and>
   storage (promptDelete name confirmed s) = storage s"
  by (simp add: promptDelete_def alert_def)

theorem promptDelete_last_file_refused_witness:
  "length (keys (files example_project)) = 1 \<and>
   files (promptDelete ''main.dart'' True example_project) = files example_project \<and>
   active (promptDelete ''main.dart'' True example_project) = active example_project"
  using promptDelete_last_file_refused [of example_project "''main.dart''" True]
  by (simp add: example_project_def app_of_def keys_def)

text \<open>
  What \<^verbatim>\<open>promptRename\<close> refuses: a new name that does not end in \<^verbatim>\<open>.dart\<close>, and a new
  name under which \<open>files\<close> holds a truthy value. The state is then as before.
\<close>

lemma promptRename_refused:
  "\<not> endsWith name ''.dart'' \<or> truthy (getProp (files s) name) \<Longrightarrow>
   files (promptRename oldName (Some name) s) = files s \<and>
   active (promptRename oldName (Some name) s) = active s \<and>
   storage (promptRename oldName (Some name) s) = storage s"
  by (auto simp: promptRename_def alert_def)

text \<open>
  C3 says that a rename to a name that is already a key of \<open>files\<close> leaves the state
  unchanged. The program tests \<^verbatim>\<open>state.files[name]\<close> for truthiness, and the content of
  a file cleared in the editor is the empty string, which is falsy: renaming
  \<^verbatim>\<open>b.dart\<close> to the name of the existing, empty \<^verbatim>\<open>a.dart\<close> is not refused. It
  overwrites \<^verbatim>\<open>a.dart\<close>, removes \<^verbatim>\<open>b.dart\<close> and moves \<open>active\<close>.
\<close>

theorem promptRename_overwrites_empty_file:
  "''a.dart'' \<in> set (keys (files cleared_project)) \<and>
   endsWith ''a.dart'' ''.dart'' \<and>
   alerts (promptRename ''b.dart'' (Some ''a.dart'') cleared_project) = [] \<and>
   files (promptRename ''b.dart'' (Some ''a.dart'') cleared_project)
     = JObj [(''a.dart'', JStr ''x'')] \<and>
   files (promptRename ''b.dart'' (Some ''a.dart'') cleared_project) \<noteq> files cleared_project \<and>
   active (promptRename ''b.dart'' (Some ''a.dart'') cleared_project) = JStr ''a.dart'' \<and>
   active (promptRename ''b.dart'' (Some ''a.dart'') cleared_project) \<noteq> active cleared_project"
  by (simp add: cleared_project_def app_of_def keys_def endsWith_def promptRename_def
      getProp_def persist_def setActive_def Let_def)

section \<open>Adding a file\<close>

lemma ownProps_setProp_new:
  assumes "endsWith k ''.dart''" and "k \<notin> set (keys v)"
  shows "ownProps (setProp v k x) = ownProps v @ [(k, x)]"
proof (cases v)
  case (JArr es ps)
  from assms(2) JArr have "k \<notin> fst ` set ps" by (simp add: keys_def)
  with assms(1) JArr show ?thesis by (simp add: dart_not_index update_new_key)
next
  case (JObj ps)
  with assms(2) show ?thesis by (simp add: keys_def update_new_key)
qed simp_all

text \<open>
  C4, as stated: the new entry has exactly the content \<^verbatim>\<open>// <name>\<close>. The program
  writes a line: the content ends in a newline.
\<close>

theorem promptNewFile_seed_counterexample:
  "endsWith ''utils.dart'' ''.dart'' \<and>
   ''utils.dart'' \<notin> set (keys (files example_project)) \<and>
   getProp (files (promptNewFile (Some ''utils.dart'') example_project)) ''utils.dart''
     \<noteq> JStr ''// utils.dart''"
  by (simp add: example_project_def app_of_def keys_def endsWith_def promptNewFile_def
      getProp_def persist_def setActive_def)

text \<open>
  C4, amended: \<^verbatim>\<open>promptNewFile\<close> with a name that ends in \<^verbatim>\<open>.dart\<close> and is not a key of
  \<open>files\<close> puts one new entry after the existing ones, with the content
  \<^verbatim>\<open>// <name>\<close> followed by a newline, and makes the name the active file. In
  particular, from the project with the one file \<^verbatim>\<open>main.dart\<close> of any content, adding
  \<^verbatim>\<open>utils.dart\<close> gives exactly the keys \<^verbatim>\<open>main.dart\<close> and \<^verbatim>\<open>utils.dart\<close> and the
  active file \<^verbatim>\<open>utils.dart\<close>.
\<close>

theorem promptNewFile_adds_file:
  assumes "endsWith name ''.dart''" and "name \<notin> set (keys (files s))"
  shows "ownProps (files (promptNewFile (Some name) s))
           = ownProps (files s) @ [(name, JStr (''// '' @ name @ ''\<newline>''))] \<and>
         active (promptNewFile (Some name) s) = JStr name \<and>
         keys (files (promptNewFile (Some ''utils.dart'')
                 (app_of [(''main.dart'', JStr c)] ''main.dart'')))
           = [''main.dart'', ''utils.dart''] \<and>
         active (promptNewFile (Some ''utils.dart'')
                 (app_of [(''main.dart'', JStr c)] ''main.dart''))
           = JStr ''utils.dart''"
proof -
  from assms(1) have ne: "name \<noteq> []" by (rule endsWith_nonempty)
  from assms(2) have un: "getProp (files s) name = JUndefined" by (rule getProp_not_key)
  from assms(2) have nk: "name \<notin> fst ` set (ownProps (files s))" by (simp add: keys_def)
  have "ownProps (files (promptNewFile (Some name) s))
          = ownProps (files s) @ [(name, JStr (''// '' @ name @ ''\<newline>''))]"
    using assms ne un by (simp add: promptNewFile_def ownProps_setProp_new)
  moreover have "active (promptNewFile (Some name) s) = JStr name"
    using assms(1) ne un by (simp add: promptNewFile_def active_setActive getProp_setProp)
  moreover have "keys (files (promptNewFile (Some ''utils.dart'')
                   (app_of [(''main.dart'', JStr c)] ''main.dart'')))
                 = [''main.dart'', ''utils.dart'']"
    by (simp add: app_of_def keys_def endsWith_def promptNewFile_def getProp_def)
  moreover have "active (promptNewFile (Some ''utils.dart'')
                   (app_of [(''main.dart'', JStr c)] ''main.dart'')) = JStr ''utils.dart''"
    by (simp add: app_of_def endsWith_def promptNewFile_def getProp_def active_setActive)
  ultimately show ?thesis by simp
qed

theorem promptNewFile_adds_file_witness:
  "endsWith ''utils.dart'' ''.dart'' \<and>
   ''utils.dart'' \<notin> set (keys (files example_project)) \<and>
   ownProps (files (promptNewFile (Some ''utils.dart'') example_project))
     = [(''main.dart'', JStr ''void main(){}''),
        (''utils.dart'', JStr ''// utils.dart\<newline>'')] \<and>
   active (promptNewFile (Some ''utils.dart'') example_project) = JStr ''utils.dart''"
  using promptNewFile_adds_file [of "''utils.dart''" example_project]
  by (simp add: example_project_def app_of_def keys_def endsWith_def)

section \<open>Backend fallback\<close>

lemma attempt_answer:
  "(attempt e url body = Inr json) = (answerOf (fetch e url body) = Some json)"
  by (auto simp: attempt_def answerOf_def split: fetch_result.splits sum.splits)

lemma attempt_no_answer:
  "answerOf (fetch e url body) = None \<Longrightarrow> \<exists>err. attempt e url body = Inl err"
  by (cases "attempt e url body") (auto simp: attempt_answer)

lemma tryBackends_first:
  assumes "i < length bs"
    and "answerOf (fetch e (endpoint (bs ! i) path) (jsonify p)) = Some json"
    and "\<forall>j<i. answerOf (fetch e (endpoint (bs ! j) path) (jsonify p)) = None"
  shows "tryBackends e path p bs lastErr
           = (map (\<lambda>b. (endpoint b path, jsonify p)) (take (Suc i) bs), Inr json)"
  using assms
proof (induction bs arbitrary: i lastErr)
  case Nil
  then show ?case by simp
next
  case (Cons b bs)
  show ?case
  proof (cases i)
    case 0
    with Cons.prems(2) have "attempt e (endpoint b path) (jsonify p) = Inr json"
      by (simp add: attempt_answer)
    with 0 show ?thesis by (simp add: endpoint_def Let_def)
  next
    case (Suc k)
    with Cons.prems(3) have "answerOf (fetch e (endpoint b path) (jsonify p)) = None"
      by auto
    then obtain err where err: "attempt e (endpoint b path) (jsonify p) = Inl err"
      using attempt_no_answer by blast
    from Suc Cons.prems have k: "k < length bs"
      "answerOf (fetch e (endpoint (bs ! k) path) (jsonify p)) = Some json"
      "\<forall>j<k. answerOf (fetch e (endpoint (bs ! j) path) (jsonify p)) = None"
      by auto
    from Cons.IH [OF k] have "tryBackends e path p bs (Some err)
           = (map (\<lambda>b. (endpoint b path, jsonify p)) (take (Suc k) bs), Inr json)" .
    with err Suc show ?thesis
      using err by (simp add: endpoint_def Let_def)
  qed
qed

lemma tryBackends_none:
  assumes "bs \<noteq> []"
    and "\<forall>b \<in> set bs. answerOf (fetch e (endpoint b path) (jsonify p)) = None"
  shows "tryBackends e path p bs lastErr
           = (map (\<lambda>b. (endpoint b path, jsonify p)) bs,
              attempt e (endpoint (last bs) path) (jsonify p))"
  using assms
proof (induction bs arbitrary: lastErr)
  case Nil
  then show ?case by simp
next
  case (Cons b bs)
  from Cons.prems(2) obtain err where err: "attempt e (endpoint b path) (jsonify p) = Inl err"
    using attempt_no_answer by fastforce
  show ?case
  proof (cases bs)
    case Nil
    with err show ?thesis by (simp add: endpoint_def Let_def)
  next
    case (Cons c cs)
    with Cons.prems Cons.IH [of "Some err"] err show ?thesis
      by (simp add: endpoint_def Let_def)
  qed
qed

text \<open>
  C5, amended: \<^verbatim>\<open>postJSON\<close> sends the request to the backends in the order of the list
  and returns the parsed response of the first backend whose request completes without
  a transport error, with an ok status and with a body that parses as JSON; it sends
  nothing to the backends after that one and throws nothing. If no backend answers so,
  it has tried all of them and throws the error of the last one.
\<close>

theorem postJSON_first_answer:
  "(i < length BACKENDS \<and>
    answerOf (fetch e (endpoint (BACKENDS ! i) path) (jsonify payload)) = Some json \<and>
    (\<forall>j<i. answerOf (fetch e (endpoint (BACKENDS ! j) path) (jsonify payload)) = None)
    \<longrightarrow> postJSON e path payload
          = (map (\<lambda>b. (endpoint b path, jsonify payload)) (take (Suc i) BACKENDS), Inr json))
   \<and>
   ((\<forall>b \<in> set BACKENDS. answerOf (fetch e (endpoint b path) (jsonify payload)) = None)
    \<longrightarrow> (\<exists>err. attempt e (endpoint (last BACKENDS) path) (jsonify payload) = Inl err \<and>
              postJSON e path payload
                = (map (\<lambda>b. (endpoint b path, jsonify payload)) BACKENDS, Inl err)))"
proof (intro conjI impI)
  assume "i < length BACKENDS \<and>
    answerOf (fetch e (endpoint (BACKENDS ! i) path) (jsonify payload)) = Some json \<and>
    (\<forall>j<i. answerOf (fetch e (endpoint (BACKENDS ! j) path) (jsonify payload)) = None)"
  then show "postJSON e path payload
          = (map (\<lambda>b. (endpoint b path, jsonify payload)) (take (Suc i) BACKENDS), Inr json)"
    unfolding postJSON_def by (intro tryBackends_first) auto
next
  assume all: "\<forall>b \<in> set BACKENDS. answerOf (fetch e (endpoint b path) (jsonify payload)) = None"
  have ne: "BACKENDS \<noteq> []" by (simp add: BACKENDS_def)
  then have "last BACKENDS \<in> set BACKENDS" by simp
  with all obtain err where
    err: "attempt e (endpoint (last BACKENDS) path) (jsonify payload) = Inl err"
    using attempt_no_answer by blast
  with tryBackends_none [OF ne all]
  show "\<exists>err. attempt e (endpoint (last BACKENDS) path) (jsonify payload) = Inl err \<and>
              postJSON e path payload
                = (map (\<lambda>b. (endpoint b path, jsonify payload)) BACKENDS, Inl err)"
    by (simp add: postJSON_def)
qed

text \<open>
  C5, as stated: the response returned is that of the first backend whose request
  completes without a transport error or a non-ok status. A backend that answers with
  status 200 and a body that is not JSON is such a backend, but \<^verbatim>\<open>res.json()\<close> throws
  inside the \<^verbatim>\<open>try\<close> block and the loop goes on: the response returned is that of the
  second backend.
\<close>

theorem postJSON_counterexample:
  "completes (fetch page_then_accept (endpoint (BACKENDS ! 0) ''compile'') (jsonify source_only)) \<and>
   answerOf (fetch page_then_accept (endpoint (BACKENDS ! 0) ''compile'') (jsonify source_only)) = None \<and>
   fetch page_then_accept (endpoint (BACKENDS ! 1) ''compile'') (jsonify source_only) = accepted \<and>
   snd (postJSON page_then_accept ''compile'' source_only) = Inr (JObj [(''result'', JStr ''main();'')])"
  by (simp add: completes_def answerOf_def page_then_accept_def accepted_def BACKENDS_def
      endpoint_def postJSON_def attempt_def source_only_def Let_def)

theorem postJSON_first_answer_witness:
  "(1::nat) < length BACKENDS \<and>
   answerOf (fetch reject_then_accept (endpoint (BACKENDS ! 1) ''compile'') (jsonify source_only))
     = Some (JObj [(''result'', JStr ''main();'')]) \<and>
   answerOf (fetch reject_then_accept (endpoint (BACKENDS ! 0) ''compile'') (jsonify source_only))
     = None \<and>
   snd (postJSON reject_then_accept ''compile'' source_only) = Inr (JObj [(''result'', JStr ''main();'')]) \<and>
   answerOf (fetch all_fail (endpoint (BACKENDS ! 0) ''compile'') (jsonify source_only)) = None \<and>
   answerOf (fetch all_fail (endpoint (BACKENDS ! 1) ''compile'') (jsonify source_only)) = None \<and>
   set BACKENDS = {BACKENDS ! 0, BACKENDS ! 1} \<and>
   snd (postJSON all_fail ''compile'' source_only)
     = Inl (JsError ''Error'' ''503 Service Unavailable'' [])"
  using postJSON_first_answer [of 1 reject_then_accept "''compile''" source_only
          "JObj [(''result'', JStr ''main();'')]"]
        postJSON_first_answer [of 0 all_fail "''compile''" source_only JNull]
  by (simp add: answerOf_def reject_then_accept_def all_fail_def accepted_def BACKENDS_def
      endpoint_def attempt_def source_only_def newError_def no_stack_def Let_def
      decimal.simps)

section \<open>Compile and run: probing the response and retrying\<close>

lemma buildSourcePayload_files:
  "files s' = files s \<Longrightarrow> buildSourcePayload b s' = buildSourcePayload b s"
  by (simp add: buildSourcePayload_def)

lemma compileRemote_files:
  "files s' = files s \<Longrightarrow> compileRemote e s' = compileRemote e s"
proof -
  assume "files s' = files s"
  then have b: "\<And>b. buildSourcePayload b s' = buildSourcePayload b s"
    by (rule buildSourcePayload_files)
  show ?thesis
    unfolding compileRemote_def b by (rule refl)
qed




lemma firstTruthy_order:
  "(firstTruthy json = Some js) =
     (\<exists>i<length compileFields. js = getProp json (compileFields ! i) \<and> truthy js \<and>
        (\<forall>j<i. \<not> truthy (getProp json (compileFields ! j))))"
  by (auto simp: firstTruthy_def find_Some_iff)



text \<open>The three ways \<^verbatim>\<open>compileAndRun\<close> ends: the script is loaded; the script has no
  text and the \<^verbatim>\<open>TypeError\<close> of the template literal is caught; no script was found.\<close>

lemma compileAndRun_ok:
  "compileRemote e s = (sent, Inr js) \<Longrightarrow> toStr js = Some txt \<Longrightarrow>
   preview (compileAndRun e s) = Some txt \<and>
   requests (compileAndRun e s) = requests s @ sent \<and>
   status_text (compileAndRun e s) = msg_done \<and>
   status_kind (compileAndRun e s) = ''ok'' \<and>
   status_timer (compileAndRun e s) = Some 3000"
  using compileRemote_files [of "setStatus msg_compiling False s\<lparr>console := []\<rparr>" s e]
  by (simp add: compileAndRun_def setStatus_def runInIframe_def Let_def)


lemma compileAndRun_failed:
  "compileRemote e s = (sent, Inl err) \<Longrightarrow>
   preview (compileAndRun e s) = preview s \<and>
   requests (compileAndRun e s) = requests s @ sent \<and>
   status_text (compileAndRun e s) = msg_compile_failed @ message err \<and>
   status_kind (compileAndRun e s) = ''error'' \<and>
   status_timer (compileAndRun e s) = None \<and>
   console (compileAndRun e s) = [(''log error'', ''[error] '' @ stackOrString err)]"
  using compileRemote_files [of "setStatus msg_compiling False s\<lparr>console := []\<rparr>" s e]
  by (simp add: compileAndRun_def compileFailed_def setStatus_def appendConsole_def Let_def)




section \<open>Errors on the status line\<close>

lemma compileRemote_post_failed:
  "postJSON e ''compile'' (buildSourcePayload False s) = (sent, Inl err) \<Longrightarrow>
   compileRemote e s = (sent, Inl err)"
  by (simp add: compileRemote_def)

lemma elapse_no_timer: "status_timer s = None \<Longrightarrow> elapse t s = s"
  by (simp add: elapse_def)

lemma compileAndRun_local_failed:
  "compileLocal e s = Inl err \<Longrightarrow>
   preview (compileAndRun_local e s) = preview s \<and>
   status_text (compileAndRun_local e s) = msg_compile_failed @ message err \<and>
   status_kind (compileAndRun_local e s) = ''error'' \<and>
   status_timer (compileAndRun_local e s) = None \<and>
   console (compileAndRun_local e s)
     = [(''log error'', ''[error] '' @ stackOrString err),
        (''log error'', ''[error] '' @ messageOrString err)]"
proof -
  assume f: "compileLocal e s = Inl err"
  have "compileLocal e (setStatus msg_compiling False s\<lparr>console := []\<rparr>) = compileLocal e s"
    by (simp add: compileLocal_def setStatus_def)
  with f show ?thesis
    by (simp add: compileAndRun_local_def compileFailed_local_def compileFailed_def
        setStatus_def appendConsole_def Let_def)
qed

text \<open>
  C8, amended: \<^verbatim>\<open>setStatus\<close> shows an error message with the kind \<^verbatim>\<open>error\<close>,
  cancels the pending timer and starts none, so the message is not cleared by the
  passing of time: it stays until the next status is set. Only a status that is not an
  error is cleared after 3000 ms. When the compile request fails on every backend
  the status line holds the failure message of the last error, and the console panel
  gets one line with the stack of the error (or the error as text); the variant with
  the local runtime does the same when the runtime is missing or returns nothing for
  a source that is text, and when the source cannot be converted to text, and adds a
  second line with the message.
\<close>

theorem error_status_stays:
  "status_text (setStatus msg True s) = msg \<and>
   status_kind (setStatus msg True s) = ''error'' \<and>
   status_timer (setStatus msg True s) = None \<and>
   elapse t (setStatus msg True s) = setStatus msg True s \<and>
   (postJSON e ''compile'' (buildSourcePayload False s) = (sent, Inl err) \<longrightarrow>
      status_text (elapse t (compileAndRun e s)) = msg_compile_failed @ message err \<and>
      status_kind (elapse t (compileAndRun e s)) = ''error'' \<and>
      console (compileAndRun e s) = [(''log error'', ''[error] '' @ stackOrString err)]) \<and>
   (compileLocal e s = Inl err' \<longrightarrow>
      status_text (elapse t (compileAndRun_local e s)) = msg_compile_failed @ message err' \<and>
      status_kind (elapse t (compileAndRun_local e s)) = ''error'' \<and>
      console (compileAndRun_local e s)
        = [(''log error'', ''[error] '' @ stackOrString err'),
           (''log error'', ''[error] '' @ messageOrString err')]) \<and>
   (truthy (getProp (files s) ''main.dart'') \<and>
    toStr (getProp (files s) ''main.dart'') = Some src \<and> dart2js e = None \<longrightarrow>
      compileLocal e s = Inl (newError e msg_no_sdk)) \<and>
   (truthy (getProp (files s) ''main.dart'') \<and>
    toStr (getProp (files s) ''main.dart'') = Some src \<and> dart2js e = Some compile \<and>
    compile src = Inr js \<and> \<not> truthy js \<longrightarrow>
      compileLocal e s = Inl (newError e msg_empty_result)) \<and>
   (truthy (getProp (files s) ''main.dart'') \<and>
    toStr (getProp (files s) ''main.dart'') = None \<longrightarrow>
      compileLocal e s = Inl (convError e ''compileAndRun''))"
proof -
  have a: "status_text (setStatus msg True s) = msg \<and>
   status_kind (setStatus msg True s) = ''error'' \<and>
   status_timer (setStatus msg True s) = None \<and>
   elapse t (setStatus msg True s) = setStatus msg True s"
    by (simp add: setStatus_def elapse_def)
  have b: "postJSON e ''compile'' (buildSourcePayload False s) = (sent, Inl err) \<longrightarrow>
      status_text (elapse t (compileAndRun e s)) = msg_compile_failed @ message err \<and>
      status_kind (elapse t (compileAndRun e s)) = ''error'' \<and>
      console (compileAndRun e s) = [(''log error'', ''[error] '' @ stackOrString err)]"
  proof
    assume "postJSON e ''compile'' (buildSourcePayload False s) = (sent, Inl err)"
    then have "compileRemote e s = (sent, Inl err)" by (rule compileRemote_post_failed)
    from compileAndRun_failed [OF this] show
      "status_text (elapse t (compileAndRun e s)) = msg_compile_failed @ message err \<and>
      status_kind (elapse t (compileAndRun e s)) = ''error'' \<and>
      console (compileAndRun e s) = [(''log error'', ''[error] '' @ stackOrString err)]"
      by (simp add: elapse_no_timer)
  qed
  have c: "compileLocal e s = Inl err' \<longrightarrow>
      status_text (elapse t (compileAndRun_local e s)) = msg_compile_failed @ message err' \<and>
      status_kind (elapse t (compileAndRun_local e s)) = ''error'' \<and>
      console (compileAndRun_local e s)
        = [(''log error'', ''[error] '' @ stackOrString err'),
           (''log error'', ''[error] '' @ messageOrString err')]"
  proof
    assume "compileLocal e s = Inl err'"
    from compileAndRun_local_failed [OF this] show
      "status_text (elapse t (compileAndRun_local e s)) = msg_compile_failed @ message err' \<and>
      status_kind (elapse t (compileAndRun_local e s)) = ''error'' \<and>
      console (compileAndRun_local e s)
        = [(''log error'', ''[error] '' @ stackOrString err'),
           (''log error'', ''[error] '' @ messageOrString err')]"
      by (simp add: elapse_no_timer)
  qed
  have d: "(truthy (getProp (files s) ''main.dart'') \<and>
    toStr (getProp (files s) ''main.dart'') = Some src \<and> dart2js e = None \<longrightarrow>
      compileLocal e s = Inl (newError e msg_no_sdk)) \<and>
   (truthy (getProp (files s) ''main.dart'') \<and>
    toStr (getProp (files s) ''main.dart'') = Some src \<and> dart2js e = Some compile \<and>
    compile src = Inr js \<and> \<not> truthy js \<longrightarrow>
      compileLocal e s = Inl (newError e msg_empty_result)) \<and>
   (truthy (getProp (files s) ''main.dart'') \<and>
    toStr (getProp (files s) ''main.dart'') = None \<longrightarrow>
      compileLocal e s = Inl (convError e ''compileAndRun''))"
    by (simp add: compileLocal_def Let_def)
  from a b c d show ?thesis by blast
qed

lemma example_payload: "buildSourcePayload False example_project = both_fields"
  by (simp add: buildSourcePayload_def example_project_def app_of_def getProp_def
      both_fields_def)

text \<open>
  C8, as stated: an error is shown as a timed status message, cleared after the fixed
  delay as the other statuses are. With every backend failing, the failure message is
  still on the status line after 3000 ms, while the message of a successful run is
  gone by then.
\<close>

theorem error_status_counterexample:
  "snd (postJSON all_fail ''compile'' (buildSourcePayload False example_project))
     = Inl (JsError ''Error'' ''503 Service Unavailable'' []) \<and>
   status_text (elapse 3000 (compileAndRun all_fail example_project))
     = msg_compile_failed @ ''503 Service Unavailable'' \<and>
   status_text (elapse 3000 (compileAndRun all_fail example_project)) \<noteq> [] \<and>
   status_text (compileAndRun reject_then_accept example_project) = msg_done \<and>
   status_text (elapse 3000 (compileAndRun reject_then_accept example_project)) = []"
proof -
  let ?err = "JsError ''Error'' ''503 Service Unavailable'' []"
  have post: "postJSON all_fail ''compile'' both_fields
      = ([(endpoint (BACKENDS ! 0) ''compile'', both_fields),
          (endpoint (BACKENDS ! 1) ''compile'', both_fields)], Inl ?err)"
    by (simp add: postJSON_def BACKENDS_def endpoint_def attempt_def all_fail_def
        both_fields_def newError_def no_stack_def Let_def decimal.simps)
  then have "compileRemote all_fail example_project
      = ([(endpoint (BACKENDS ! 0) ''compile'', both_fields),
          (endpoint (BACKENDS ! 1) ''compile'', both_fields)], Inl ?err)"
    by (simp add: compileRemote_post_failed example_payload)
  from compileAndRun_failed [OF this]
  have failed: "status_text (elapse 3000 (compileAndRun all_fail example_project))
     = msg_compile_failed @ ''503 Service Unavailable''"
    by (simp add: elapse_no_timer)
  have post2: "postJSON reject_then_accept ''compile'' both_fields
      = ([(endpoint (BACKENDS ! 0) ''compile'', both_fields),
          (endpoint (BACKENDS ! 1) ''compile'', both_fields)],
         Inr (JObj [(''result'', JStr ''main();'')]))"
    by (simp add: postJSON_def BACKENDS_def endpoint_def attempt_def reject_then_accept_def
        accepted_def both_fields_def Let_def)
  then have "compileRemote reject_then_accept example_project
      = ([(endpoint (BACKENDS ! 0) ''compile'', both_fields),
          (endpoint (BACKENDS ! 1) ''compile'', both_fields)], Inr (JStr ''main();''))"
    by (simp add: compileRemote_def example_payload compiledOf_def getProp_def js_or_def)
  from compileAndRun_ok [OF this]
  have ok: "status_text (compileAndRun reject_then_accept example_project) = msg_done \<and>
     status_text (elapse 3000 (compileAndRun reject_then_accept example_project)) = []"
    by (simp add: elapse_def)
  from post failed ok show ?thesis
    by (simp add: example_payload msg_compile_failed_def)
qed

theorem error_status_stays_witness:
  "postJSON all_fail ''compile'' (buildSourcePayload False example_project)
     = ([(endpoint (BACKENDS ! 0) ''compile'', both_fields),
         (endpoint (BACKENDS ! 1) ''compile'', both_fields)],
        Inl (JsError ''Error'' ''503 Service Unavailable'' [])) \<and>
   status_text (elapse 3000 (compileAndRun all_fail example_project))
     = msg_compile_failed @ ''503 Service Unavailable'' \<and>
   console (compileAndRun all_fail example_project)
     = [(''log error'', ''[error] Error: 503 Service Unavailable'')] \<and>
   truthy (getProp (files example_project) ''main.dart'') \<and>
   toStr (getProp (files example_project) ''main.dart'') = Some ''void main(){}'' \<and>
   dart2js no_runtime = None \<and>
   compileLocal no_runtime example_project = Inl (newError no_runtime msg_no_sdk) \<and>
   status_text (elapse 3000 (compileAndRun_local no_runtime example_project))
     = msg_compile_failed @ msg_no_sdk \<and>
   status_kind (elapse 3000 (compileAndRun_local no_runtime example_project)) = ''error'' \<and>
   dart2js empty_runtime = Some (\<lambda>source. Inr (JStr [])) \<and>
   compileLocal empty_runtime example_project = Inl (newError empty_runtime msg_empty_result) \<and>
   status_text (elapse 3000 (compileAndRun_local empty_runtime example_project))
     = msg_compile_failed @ msg_empty_result \<and>
   truthy (getProp (files object_project) ''main.dart'') \<and>
   toStr (getProp (files object_project) ''main.dart'') = None \<and>
   compileLocal no_runtime object_project = Inl (no_text ''compileAndRun'')"
proof -
  let ?err = "JsError ''Error'' ''503 Service Unavailable'' []"
  have post: "postJSON all_fail ''compile'' both_fields
      = ([(endpoint (BACKENDS ! 0) ''compile'', both_fields),
          (endpoint (BACKENDS ! 1) ''compile'', both_fields)], Inl ?err)"
    by (simp add: postJSON_def BACKENDS_def endpoint_def attempt_def all_fail_def
        both_fields_def newError_def no_stack_def Let_def decimal.simps)
  have m: "truthy (getProp (files example_project) ''main.dart'') \<and>
      toStr (getProp (files example_project) ''main.dart'') = Some ''void main(){}'' \<and>
      dart2js no_runtime = None"
    by (simp add: example_project_def app_of_def getProp_def no_runtime_def)
  from error_status_stays
    [where e = all_fail and s = example_project and err = ?err and t = 3000
       and sent = "[(endpoint (BACKENDS ! 0) ''compile'', both_fields),
          (endpoint (BACKENDS ! 1) ''compile'', both_fields)]"]
  have a: "status_text (elapse 3000 (compileAndRun all_fail example_project))
     = msg_compile_failed @ ''503 Service Unavailable'' \<and>
   console (compileAndRun all_fail example_project)
     = [(''log error'', ''[error] Error: 503 Service Unavailable'')]"
    by (simp add: post example_payload stackOrString_def errorString_def)
  from error_status_stays
    [where e = no_runtime and s = example_project and t = 3000
      and err' = "newError no_runtime msg_no_sdk" and src = "''void main(){}''"]
  have b: "compileLocal no_runtime example_project = Inl (newError no_runtime msg_no_sdk) \<and>
   status_text (elapse 3000 (compileAndRun_local no_runtime example_project))
     = msg_compile_failed @ msg_no_sdk \<and>
   status_kind (elapse 3000 (compileAndRun_local no_runtime example_project)) = ''error''"
    using m by (simp add: newError_def)
  have m': "truthy (getProp (files example_project) ''main.dart'') \<and>
      toStr (getProp (files example_project) ''main.dart'') = Some ''void main(){}'' \<and>
      dart2js empty_runtime = Some (\<lambda>source. Inr (JStr []))"
    by (simp add: example_project_def app_of_def getProp_def empty_runtime_def)
  from error_status_stays
    [where e = empty_runtime and s = example_project and t = 3000
      and err' = "newError empty_runtime msg_empty_result"
      and compile = "\<lambda>source. Inr (JStr [])" and js = "JStr []"
      and src = "''void main(){}''"]
  have c: "compileLocal empty_runtime example_project
             = Inl (newError empty_runtime msg_empty_result) \<and>
   status_text (elapse 3000 (compileAndRun_local empty_runtime example_project))
     = msg_compile_failed @ msg_empty_result"
    using m' by (simp add: newError_def)
  have "files object_project = JObj [(''main.dart'', JObj [(''toString'', JNum ''0'')])]"
    unfolding object_project_def by (subst import_fields) (simp_all add: getProp_def)
  then have m'': "truthy (getProp (files object_project) ''main.dart'') \<and>
      toStr (getProp (files object_project) ''main.dart'') = None"
    by (simp add: getProp_def)
  from error_status_stays [where e = no_runtime and s = object_project]
  have d: "compileLocal no_runtime object_project = Inl (no_text ''compileAndRun'')"
    using m'' by (simp add: no_runtime_def)
  from post a b c d m m' m'' show ?thesis
    by (simp add: example_payload)
qed

section \<open>Import\<close>

text \<open>The status after an accepted import: success when \<^verbatim>\<open>setActive\<close> returns, the
  failure message with the \<^verbatim>\<open>TypeError\<close> when it throws.\<close>

lemma import_status:
  assumes "truthy (getProp obj ''files'')" and "typeof (getProp obj ''files'') = ''object''"
  shows "status_text (importProject e (Inr obj) s)
           = (if threw (setActive (js_or (getProp obj ''active'') (JStr ''main.dart''))
                  (s\<lparr>files := getProp obj ''files''\<rparr>))
              then msg_import_failed @ message (convError e ''setActive'')
              else msg_imported)"
    and "status_kind (importProject e (Inr obj) s)
           = (if threw (setActive (js_or (getProp obj ''active'') (JStr ''main.dart''))
                  (s\<lparr>files := getProp obj ''files''\<rparr>))
              then ''error'' else ''ok'')"
  using assms
  by (simp_all add: importProject_accepted setStatus_def importFailed_def Let_def
      setActive_def persist_def split: option.splits)

lemma setActive_threw:
  "threw (setActive name s) =
     (case toStr name of
        None \<Rightarrow> True
      | Some k \<Rightarrow> truthy (getProp (files s) k) \<and> toStr (getProp (files s) k) = None)"
  by (simp add: setActive_def split: option.splits)

text \<open>
  C9: \<^verbatim>\<open>importProject\<close> accepts every parsed document whose \<^verbatim>\<open>files\<close> property
  is truthy and of type \<^verbatim>\<open>object\<close>, that is any object or array: the value
  becomes \<open>files\<close>, \<open>active\<close> is the \<^verbatim>\<open>active\<close> of the document when that is
  truthy and \<^verbatim>\<open>main.dart\<close> otherwise, and both are stored. The status reports
  success when \<open>active\<close> converts to a name \<open>k\<close> and the file of that name is missing,
  falsy or converts to text; it reports a failure, with the state replaced and stored
  all the same, when \<open>active\<close> or the content of its file cannot be converted to text
  and \<^verbatim>\<open>setActive\<close> throws. So the document \<^verbatim>\<open>{"files":{}}\<close> replaces the project
  by one without files, which is not a valid project state; and a document whose
  \<^verbatim>\<open>active\<close> is a name that is not a key of its \<^verbatim>\<open>files\<close> is accepted, with that
  name as \<open>active\<close> in the state and in the stored document.
\<close>

theorem importProject_accepts_any_object:
  "(truthy fs \<and> typeof fs = ''object'' \<and> getProp obj ''files'' = fs \<and>
    js_or (getProp obj ''active'') (JStr ''main.dart'') = act \<longrightarrow>
      files (importProject e (Inr obj) s) = fs \<and>
      active (importProject e (Inr obj) s) = act \<and>
      storage (importProject e (Inr obj) s)
        = Some (jsonify (JObj [(''files'', fs), (''active'', act)])) \<and>
      (toStr act = Some k \<and> (\<not> truthy (getProp fs k) \<or> toStr (getProp fs k) = Some txt) \<longrightarrow>
         status_text (importProject e (Inr obj) s) = msg_imported \<and>
         status_kind (importProject e (Inr obj) s) = ''ok'') \<and>
      (toStr act = None \<or>
       toStr act = Some k \<and> truthy (getProp fs k) \<and> toStr (getProp fs k) = None \<longrightarrow>
         status_text (importProject e (Inr obj) s)
           = msg_import_failed @ message (convError e ''setActive'') \<and>
         status_kind (importProject e (Inr obj) s) = ''error'')) \<and>
   files (importProject e (Inr (JObj [(''files'', JObj [])])) s) = JObj [] \<and>
   keys (files (importProject e (Inr (JObj [(''files'', JObj [])])) s)) = [] \<and>
   \<not> validProject (importProject e (Inr (JObj [(''files'', JObj [])])) s) \<and>
   status_text (importProject e (Inr (JObj [(''files'', JObj [])])) s) = msg_imported \<and>
   (a \<noteq> [] \<and> a \<notin> fst ` set ps \<longrightarrow>
      files (importProject e (Inr (JObj [(''files'', JObj ps), (''active'', JStr a)])) s)
        = JObj ps \<and>
      active (importProject e (Inr (JObj [(''files'', JObj ps), (''active'', JStr a)])) s)
        = JStr a \<and>
      \<not> activeIsKey (importProject e (Inr (JObj [(''files'', JObj ps), (''active'', JStr a)])) s) \<and>
      storage (importProject e (Inr (JObj [(''files'', JObj ps), (''active'', JStr a)])) s)
        = Some (JObj [(''files'', jsonify (JObj ps)), (''active'', JStr a)]) \<and>
      status_text (importProject e (Inr (JObj [(''files'', JObj ps), (''active'', JStr a)])) s)
        = msg_imported)"
proof -
  have gen: "truthy fs \<and> typeof fs = ''object'' \<and> getProp obj ''files'' = fs \<and>
    js_or (getProp obj ''active'') (JStr ''main.dart'') = act \<longrightarrow>
      files (importProject e (Inr obj) s) = fs \<and>
      active (importProject e (Inr obj) s) = act \<and>
      storage (importProject e (Inr obj) s)
        = Some (jsonify (JObj [(''files'', fs), (''active'', act)])) \<and>
      (toStr act = Some k \<and> (\<not> truthy (getProp fs k) \<or> toStr (getProp fs k) = Some txt) \<longrightarrow>
         status_text (importProject e (Inr obj) s) = msg_imported \<and>
         status_kind (importProject e (Inr obj) s) = ''ok'') \<and>
      (toStr act = None \<or>
       toStr act = Some k \<and> truthy (getProp fs k) \<and> toStr (getProp fs k) = None \<longrightarrow>
         status_text (importProject e (Inr obj) s)
           = msg_import_failed @ message (convError e ''setActive'') \<and>
         status_kind (importProject e (Inr obj) s) = ''error'')"
  proof
    assume h: "truthy fs \<and> typeof fs = ''object'' \<and> getProp obj ''files'' = fs \<and>
      js_or (getProp obj ''active'') (JStr ''main.dart'') = act"
    then have g: "truthy (getProp obj ''files'')" "typeof (getProp obj ''files'') = ''object''"
      by simp_all
    from import_fields [OF g, of e s] h
    have f: "files (importProject e (Inr obj) s) = fs \<and>
      active (importProject e (Inr obj) s) = act \<and>
      storage (importProject e (Inr obj) s)
        = Some (jsonify (JObj [(''files'', fs), (''active'', act)]))"
      by simp
    from import_status [OF g, of e s] h
    have st: "(toStr act = Some k \<and>
         (\<not> truthy (getProp fs k) \<or> toStr (getProp fs k) = Some txt) \<longrightarrow>
         status_text (importProject e (Inr obj) s) = msg_imported \<and>
         status_kind (importProject e (Inr obj) s) = ''ok'') \<and>
      (toStr act = None \<or>
       toStr act = Some k \<and> truthy (getProp fs k) \<and> toStr (getProp fs k) = None \<longrightarrow>
         status_text (importProject e (Inr obj) s)
           = msg_import_failed @ message (convError e ''setActive'') \<and>
         status_kind (importProject e (Inr obj) s) = ''error'')"
      by (auto simp: setActive_threw)
    from f st show "files (importProject e (Inr obj) s) = fs \<and>
      active (importProject e (Inr obj) s) = act \<and>
      storage (importProject e (Inr obj) s)
        = Some (jsonify (JObj [(''files'', fs), (''active'', act)])) \<and>
      (toStr act = Some k \<and> (\<not> truthy (getProp fs k) \<or> toStr (getProp fs k) = Some txt) \<longrightarrow>
         status_text (importProject e (Inr obj) s) = msg_imported \<and>
         status_kind (importProject e (Inr obj) s) = ''ok'') \<and>
      (toStr act = None \<or>
       toStr act = Some k \<and> truthy (getProp fs k) \<and> toStr (getProp fs k) = None \<longrightarrow>
         status_text (importProject e (Inr obj) s)
           = msg_import_failed @ message (convError e ''setActive'') \<and>
         status_kind (importProject e (Inr obj) s) = ''error'')"
      by blast
  qed
  let ?empty = "JObj [(''files'', JObj [])]"
  have ge: "truthy (getProp ?empty ''files'')" "typeof (getProp ?empty ''files'') = ''object''"
    "getProp ?empty ''files'' = JObj []"
    by (simp_all add: getProp_def)
  have empty: "files (importProject e (Inr ?empty) s) = JObj []"
    using import_fields(1) [OF ge(1,2)] ge(3) by simp
  then have empty': "keys (files (importProject e (Inr ?empty) s)) = [] \<and>
     \<not> validProject (importProject e (Inr ?empty) s)"
    by (simp add: keys_def validProject_def)
  have empty'': "status_text (importProject e (Inr ?empty) s) = msg_imported"
    using import_status(1) [OF ge(1,2), of e s]
    by (simp add: setActive_threw getProp_def js_or_def)
  have dang: "a \<noteq> [] \<and> a \<notin> fst ` set ps \<longrightarrow>
      files (importProject e (Inr (JObj [(''files'', JObj ps), (''active'', JStr a)])) s)
        = JObj ps \<and>
      active (importProject e (Inr (JObj [(''files'', JObj ps), (''active'', JStr a)])) s)
        = JStr a \<and>
      \<not> activeIsKey (importProject e (Inr (JObj [(''files'', JObj ps), (''active'', JStr a)])) s) \<and>
      storage (importProject e (Inr (JObj [(''files'', JObj ps), (''active'', JStr a)])) s)
        = Some (JObj [(''files'', jsonify (JObj ps)), (''active'', JStr a)]) \<and>
      status_text (importProject e (Inr (JObj [(''files'', JObj ps), (''active'', JStr a)])) s)
        = msg_imported"
  proof
    assume h: "a \<noteq> [] \<and> a \<notin> fst ` set ps"
    let ?doc = "JObj [(''files'', JObj ps), (''active'', JStr a)]"
    have g: "truthy (getProp ?doc ''files'')" "typeof (getProp ?doc ''files'') = ''object''"
      by (simp_all add: getProp_def)
    have v: "getProp ?doc ''files'' = JObj ps" "getProp ?doc ''active'' = JStr a"
      by (simp_all add: getProp_def)
    from h have u: "getProp (JObj ps) a = JUndefined"
      by (simp add: getProp_not_key keys_def)
    from import_fields(1,2,3) [OF g, of e s] import_status(1) [OF g, of e s] h v u
    show "files (importProject e (Inr ?doc) s) = JObj ps \<and>
      active (importProject e (Inr ?doc) s) = JStr a \<and>
      \<not> activeIsKey (importProject e (Inr ?doc) s) \<and>
      storage (importProject e (Inr ?doc) s)
        = Some (JObj [(''files'', jsonify (JObj ps)), (''active'', JStr a)]) \<and>
      status_text (importProject e (Inr ?doc) s) = msg_imported"
      by (simp add: js_or_def activeIsKey_def keys_def setActive_threw)
  qed
  from gen empty empty' empty'' dang show ?thesis by blast
qed

theorem importProject_accepts_any_object_witness:
  "truthy (JArr [Some (JStr ''x'')] []) \<and> typeof (JArr [Some (JStr ''x'')] []) = ''object'' \<and>
   getProp (JObj [(''files'', JArr [Some (JStr ''x'')] [])]) ''files''
     = JArr [Some (JStr ''x'')] [] \<and>
   toStr (JStr ''main.dart'') = Some ''main.dart'' \<and>
   \<not> truthy (getProp (JArr [Some (JStr ''x'')] []) ''main.dart'') \<and>
   files (importProject no_runtime (Inr (JObj [(''files'', JArr [Some (JStr ''x'')] [])]))
      example_project)
     = JArr [Some (JStr ''x'')] [] \<and>
   status_kind (importProject no_runtime (Inr (JObj [(''files'', JArr [Some (JStr ''x'')] [])]))
      example_project)
     = ''ok'' \<and>
   truthy (getProp object_active ''files'') \<and>
   typeof (getProp object_active ''files'') = ''object'' \<and>
   toStr (js_or (getProp object_active ''active'') (JStr ''main.dart'')) = None \<and>
   files (importProject no_runtime (Inr object_active) example_project)
     = JObj [(''main.dart'', JStr ''x'')] \<and>
   active (importProject no_runtime (Inr object_active) example_project)
     = JObj [(''toString'', JNum ''0'')] \<and>
   status_kind (importProject no_runtime (Inr object_active) example_project) = ''error'' \<and>
   status_text (importProject no_runtime (Inr object_active) example_project)
     = msg_import_failed @ ''Cannot convert object to primitive value'' \<and>
   ''gone.dart'' \<noteq> [] \<and> ''gone.dart'' \<notin> fst ` set [(''main.dart'', JStr ''void main(){}'')] \<and>
   active (importProject no_runtime
      (Inr (JObj [(''files'', JObj [(''main.dart'', JStr ''void main(){}'')]),
                  (''active'', JStr ''gone.dart'')])) example_project)
     = JStr ''gone.dart'' \<and>
   \<not> activeIsKey (importProject no_runtime
      (Inr (JObj [(''files'', JObj [(''main.dart'', JStr ''void main(){}'')]),
                  (''active'', JStr ''gone.dart'')])) example_project)"
  using importProject_accepts_any_object
    [where fs = "JArr [Some (JStr ''x'')] []"
       and obj = "JObj [(''files'', JArr [Some (JStr ''x'')] [])]"
       and act = "JStr ''main.dart''" and k = "''main.dart''"
       and e = no_runtime and s = example_project and a = "''gone.dart''"
       and ps = "[(''main.dart'', JStr ''void main(){}'')]"]
    importProject_accepts_any_object
    [where fs = "JObj [(''main.dart'', JStr ''x'')]" and obj = object_active
       and act = "JObj [(''toString'', JNum ''0'')]"
       and e = no_runtime and s = example_project]
  by (simp add: getProp_def js_or_def object_active_def no_runtime_def no_text_def
      decimal.simps)

section \<open>Export and import\<close>

text \<open>A value of JSON goes through \<^verbatim>\<open>JSON.stringify\<close> and \<^verbatim>\<open>JSON.parse\<close>
  unchanged.\<close>

lemma jsonify_jsonValue: "jsonValue v \<Longrightarrow> jsonify v = v"
proof (induction v)
  case (JArr es ps)
  from JArr.prems have ps: "ps = []"
    and all: "\<forall>e \<in> set es. case e of None \<Rightarrow> False | Some x \<Rightarrow> jsonValue x"
    by (simp_all add: list_all_iff)
  have "map (\<lambda>e. case e of None \<Rightarrow> Some JNull
                   | Some x \<Rightarrow> Some (if x = JUndefined then JNull else jsonify x)) es
          = map (\<lambda>e. e) es"
  proof (rule map_cong [OF refl])
    fix e assume e: "e \<in> set es"
    with all obtain x where x: "e = Some x" "jsonValue x"
      by (cases e) auto
    from x(2) have "x \<noteq> JUndefined" by auto
    moreover from JArr.IH(1) e x have "jsonify x = x" by simp
    ultimately show "(case e of None \<Rightarrow> Some JNull
                   | Some x \<Rightarrow> Some (if x = JUndefined then JNull else jsonify x)) = e"
      using x(1) by simp
  qed
  with ps show ?case by simp
next
  case (JObj ps)
  from JObj.prems have all: "\<forall>p \<in> set ps. jsonValue (snd p)"
    by (simp add: list_all_iff)
  then have "\<forall>p \<in> set ps. snd p \<noteq> JUndefined" by auto
  then have f: "filter (\<lambda>p. snd p \<noteq> JUndefined) ps = ps" by simp
  have "map (\<lambda>p. (fst p, jsonify (snd p))) ps = map (\<lambda>p. p) ps"
  proof (rule map_cong [OF refl])
    fix p assume p: "p \<in> set ps"
    with all have "jsonValue (snd p)" by blast
    with JObj.IH p have "jsonify (snd p) = snd p"
      by (cases p) auto
    then show "(fst p, jsonify (snd p)) = p" by simp
  qed
  with f show ?case by simp
qed simp_all

lemma exportProject_fields:
  assumes "jsonValue (files s)" and "jsonValue (active s)"
  shows "exportProject ts s
           = JObj [(''files'', files s), (''active'', active s), (''ts'', JNum (decimal ts))]"
proof -
  from assms have "files s \<noteq> JUndefined" "active s \<noteq> JUndefined" by auto
  moreover have "CHR ''N'' \<notin> set ''0123456789''" "CHR ''I'' \<notin> set ''0123456789''" by simp_all
  with decimal_digits [of ts]
  have "decimal ts \<noteq> ''NaN''" "decimal ts \<noteq> ''Infinity''" "decimal ts \<noteq> ''-Infinity''"
    by auto
  ultimately show ?thesis
    using assms by (simp add: exportProject_def jsonify_jsonValue)
qed

lemma elemProps_mem: "(k, x) \<in> set (elemProps i es) \<Longrightarrow> Some x \<in> set es"
proof (induction es arbitrary: i)
  case Nil
  then show ?case by simp
next
  case (Cons e es)
  then show ?case by (cases e) auto
qed

lemma jsonValue_props:
  assumes "jsonValue v" and "(k, x) \<in> set (ownProps v)"
  shows "jsonValue x"
proof (cases v)
  case (JObj ps)
  with assms show ?thesis by (auto simp: list_all_iff)
next
  case (JArr es ps)
  with assms have "Some x \<in> set es" by (auto dest: elemProps_mem)
  with assms(1) JArr show ?thesis by (auto simp: list_all_iff)
qed (use assms in auto)

lemma jsonValue_getProp:
  assumes "jsonValue v" and "truthy (getProp v k)"
  shows "jsonValue (getProp v k)"
proof (cases "map_of (ownProps v) k")
  case None
  with assms(2) show ?thesis by (simp add: getProp_def)
next
  case (Some x)
  then have "(k, x) \<in> set (ownProps v)" by (rule map_of_SomeD)
  with assms(1) have "jsonValue x" by (rule jsonValue_props)
  with Some show ?thesis by (simp add: getProp_def)
qed

text \<open>The state after the import of a parsed document can be exported and imported
  back.\<close>

lemma imported_state_roundtrips:
  assumes "jsonValue obj" and "truthy (getProp obj ''files'')"
    and "typeof (getProp obj ''files'') = ''object''"
  shows "truthy (files (importProject e (Inr obj) s)) \<and>
         typeof (files (importProject e (Inr obj) s)) = ''object'' \<and>
         jsonValue (files (importProject e (Inr obj) s)) \<and>
         truthy (active (importProject e (Inr obj) s)) \<and>
         jsonValue (active (importProject e (Inr obj) s))"
proof -
  have f: "files (importProject e (Inr obj) s) = getProp obj ''files''"
    and a: "active (importProject e (Inr obj) s)
              = js_or (getProp obj ''active'') (JStr ''main.dart'')"
    using import_fields(1,2) [OF assms(2,3)] by simp_all
  have "jsonValue (getProp obj ''files'')"
    using assms(1,2) by (rule jsonValue_getProp)
  moreover have "truthy (js_or (getProp obj ''active'') (JStr ''main.dart'')) \<and>
      jsonValue (js_or (getProp obj ''active'') (JStr ''main.dart''))"
    using jsonValue_getProp [OF assms(1), of "''active''"]
    by (simp add: js_or_def)
  ultimately show ?thesis
    using assms(2,3) by (simp add: f a)
qed

text \<open>So does a project of the data model: its contents are text, its active pointer is
  a name that is not empty.\<close>

lemma text_project_roundtrips:
  assumes "files s = JObj ps" and "\<forall>p \<in> set ps. \<exists>t. snd p = JStr t"
    and "active s = JStr a" and "a \<noteq> []"
  shows "truthy (files s) \<and> typeof (files s) = ''object'' \<and> jsonValue (files s) \<and>
         truthy (active s) \<and> jsonValue (active s)"
proof -
  from assms(2) have "\<forall>p \<in> set ps. jsonValue (snd p)" by auto
  with assms(1,3,4) show ?thesis by (simp add: list_all_iff)
qed

lemma unnamed_active_fields:
  "files unnamed_active = JObj [('''', JStr ''x'')]"
  "active unnamed_active = JStr ''''"
  by (simp_all add: unnamed_active_def import_fields getProp_def active_setActive)

lemma renamed_missing_fields:
  "files renamed_missing
     = JObj [(''main.dart'', JStr ''void main(){}''), (''b.dart'', JUndefined)]"
  "active renamed_missing = JStr ''main.dart''"
  by (simp_all add: renamed_missing_def example_project_def app_of_def promptRename_def
      endsWith_def getProp_def active_setActive Let_def)

lemma array_project_fields:
  "files array_project
     = JArr [Some (JStr ''x'')] [(''utils.dart'', JStr ''// utils.dart\<newline>'')]"
  "active array_project = JStr ''utils.dart''"
proof -
  let ?s = "importProject no_runtime (Inr (JObj [(''files'', JArr [Some (JStr ''x'')] [])]))
          example_project"
  have f: "files ?s = JArr [Some (JStr ''x'')] []"
    by (subst import_fields) (simp_all add: getProp_def)
  have i: "arrayIndex ''utils.dart'' = None"
    by (rule dart_not_index) (simp add: endsWith_def)
  show "files array_project
     = JArr [Some (JStr ''x'')] [(''utils.dart'', JStr ''// utils.dart\<newline>'')]"
    unfolding array_project_def
    by (simp add: promptNewFile_def endsWith_def f i getProp_def decimal.simps)
  show "active array_project = JStr ''utils.dart''"
    unfolding array_project_def
    by (simp add: promptNewFile_def endsWith_def f i getProp_def decimal.simps
        active_setActive)
qed

text \<open>
  C6, as stated: for every project state, export followed by import gives identical
  \<open>files\<close> and \<open>active\<close>. Three states that the program reaches are not restored.
  When the active file has the empty name, the import reads the empty \<^verbatim>\<open>active\<close> of
  the document as missing (\<^verbatim>\<open>obj.active || 'main.dart'\<close>) and points \<open>active\<close> at
  \<^verbatim>\<open>main.dart\<close>. When an entry of \<open>files\<close> has the value \<^verbatim>\<open>undefined\<close>,
  \<^verbatim>\<open>JSON.stringify\<close> leaves it out of the document, and the key is gone after the
  import. When \<open>files\<close> is an array, as after the import of \<^verbatim>\<open>{"files": ["x"]}\<close>,
  a file added to it is a named property of the array, which \<^verbatim>\<open>JSON.stringify\<close>
  leaves out as well: the file is gone after the import.
\<close>

theorem export_import_counterexample:
  "validProject unnamed_active \<and>
   active unnamed_active = JStr '''' \<and>
   active (importProject no_runtime (Inr (exportProject 0 unnamed_active)) unnamed_active)
     = JStr ''main.dart'' \<and>
   keys (files renamed_missing) = [''main.dart'', ''b.dart''] \<and>
   keys (files (importProject no_runtime (Inr (exportProject 0 renamed_missing))
                  renamed_missing)) = [''main.dart''] \<and>
   validProject array_project \<and>
   keys (files array_project) = [''0'', ''utils.dart''] \<and>
   active array_project = JStr ''utils.dart'' \<and>
   keys (files (importProject no_runtime (Inr (exportProject 0 array_project))
                  array_project)) = [''0''] \<and>
   files (importProject no_runtime (Inr (exportProject 0 array_project)) array_project)
     \<noteq> files array_project"
  by (simp add: validProject_def activeIsKey_def unnamed_active_fields renamed_missing_fields
      array_project_fields keys_def exportProject_def import_fields getProp_def js_or_def
      decimal.simps)

text \<open>
  C6, amended: for every project state whose \<open>files\<close> is an object or an array that
  is a value of JSON (it holds no \<^verbatim>\<open>undefined\<close> and no number that is not finite,
  and an array in it has no hole and no named property, so no file has been added to an
  array) and whose \<open>active\<close> is a truthy value of JSON, importing the document that
  \<^verbatim>\<open>exportProject\<close> writes for it gives \<open>files\<close> and \<open>active\<close> identical to those of
  the exported state, whatever the state the import replaces and whatever the time
  stamp. These are the states the program holds after the import of a parsed document
  (lemma \<open>imported_state_roundtrips\<close>), and the projects of the data model, whose
  contents are text and whose active name is not empty (lemma
  \<open>text_project_roundtrips\<close>).
\<close>

theorem export_import_roundtrip:
  assumes "truthy (files s)" and "typeof (files s) = ''object''" and "jsonValue (files s)"
    and "truthy (active s)" and "jsonValue (active s)"
  shows "files (importProject e (Inr (exportProject ts s)) s') = files s \<and>
         active (importProject e (Inr (exportProject ts s)) s') = active s"
proof -
  let ?doc = "exportProject ts s"
  from assms(3,5) have doc: "?doc = JObj [(''files'', files s),
      (''active'', active s), (''ts'', JNum (decimal ts))]"
    by (rule exportProject_fields)
  from doc have g: "getProp ?doc ''files'' = files s" "getProp ?doc ''active'' = active s"
    by (simp_all add: getProp_def)
  from g assms(1,2) have ok: "truthy (getProp ?doc ''files'')"
    "typeof (getProp ?doc ''files'') = ''object''"
    by simp_all
  from import_fields(1,2) [OF ok, of e s'] g assms(4) show ?thesis
    by (simp add: js_or_def)
qed

theorem export_import_roundtrip_witness:
  "truthy (files cleared_project) \<and> typeof (files cleared_project) = ''object'' \<and>
   jsonValue (files cleared_project) \<and> truthy (active cleared_project) \<and>
   jsonValue (active cleared_project) \<and>
   exportProject 1700000000000 cleared_project
     = JObj [(''files'', JObj [(''a.dart'', JStr ''''), (''b.dart'', JStr ''x'')]),
             (''active'', JStr ''b.dart''), (''ts'', JNum ''1700000000000'')] \<and>
   files (importProject no_runtime (Inr (exportProject 1700000000000 cleared_project))
            example_project) = files cleared_project \<and>
   active (importProject no_runtime (Inr (exportProject 1700000000000 cleared_project))
            example_project) = active cleared_project"
  using export_import_roundtrip [of cleared_project no_runtime 1700000000000 example_project]
  by (simp add: cleared_project_def app_of_def exportProject_def decimal.simps)

section \<open>The payload is built from a copy\<close>

lemma keys_update_mem: "k \<in> fst ` set (AList.update k x ps)"
  by (induction ps) auto

lemma truthy_getProp_JObj: "truthy (getProp (JObj ps) k) \<Longrightarrow> k \<in> fst ` set ps"
  using truthy_getProp_key [of "JObj ps" k] by (simp add: keys_def)

lemma truthy_default: "truthy (getProp DEFAULT_FILES ''main.dart'')"
  by (simp add: DEFAULT_FILES_def getProp_def DEFAULT_main_def)

lemma example_payload_single: "buildSourcePayload True example_project = source_only"
  by (simp add: buildSourcePayload_def example_project_def app_of_def getProp_def
      source_only_def)

lemma retry_requests:
  "requests (compileAndRun retry_env example_project)
     = [(endpoint (BACKENDS ! 0) ''compile'', both_fields),
        (endpoint (BACKENDS ! 0) ''compile'', source_only)]"
proof -
  have r1: "postJSON retry_env ''compile'' both_fields
     = ([(endpoint (BACKENDS ! 0) ''compile'', both_fields)],
        Inr (JObj [(''error'', JStr ''unknown field'')]))"
    by (simp add: postJSON_def BACKENDS_def endpoint_def attempt_def retry_env_def
        both_fields_def getProp_def Let_def)
  have r2: "postJSON retry_env ''compile'' source_only
     = ([(endpoint (BACKENDS ! 0) ''compile'', source_only)],
        Inr (JObj [(''js'', JStr ''main();'')]))"
    by (simp add: postJSON_def BACKENDS_def endpoint_def attempt_def retry_env_def
        source_only_def getProp_def Let_def)
  have "compileRemote retry_env example_project
      = ([(endpoint (BACKENDS ! 0) ''compile'', both_fields)]
         @ [(endpoint (BACKENDS ! 0) ''compile'', source_only)], Inr (JStr ''main();''))"
    by (simp add: compileRemote_def example_payload example_payload_single r1 r2
        compiledOf_def getProp_def js_or_def)
  from compileAndRun_ok [OF this, of "''main();''"] show ?thesis
    by (simp add: example_project_def app_of_def)
qed

text \<open>
  C10, as stated: the \<^verbatim>\<open>sources\<close> of the returned payload always contain the key
  \<^verbatim>\<open>main.dart\<close>. Called with \<^verbatim>\<open>singleOnly\<close>, as \<^verbatim>\<open>compileAndRun\<close> does for its
  second request, \<^verbatim>\<open>buildSourcePayload\<close> returns a payload that has the one field
  \<^verbatim>\<open>source\<close> and no \<^verbatim>\<open>sources\<close> at all.
\<close>

theorem buildSourcePayload_single_counterexample:
  "map_of (snd (buildSourcePayload_store True (one_file_store, one_file_state))) ''sources''
     = None \<and>
   keys (buildSourcePayload True example_project) = [''source''] \<and>
   getProp (buildSourcePayload True example_project) ''sources'' = JUndefined \<and>
   snd (requests (compileAndRun retry_env example_project) ! 1)
     = jsonify (buildSourcePayload True example_project) \<and>
   getProp (snd (requests (compileAndRun retry_env example_project) ! 1)) ''sources''
     = JUndefined"
  by (simp add: buildSourcePayload_store_def Let_def retry_requests example_payload_single
      source_only_def keys_def getProp_def)

text \<open>
  C10, amended: \<^verbatim>\<open>buildSourcePayload\<close> leaves the state as it is. Every object that
  was in the store before the call, the \<^verbatim>\<open>files\<close> object of the state among them,
  is the same after it, and so are the two fields of the state; the one new object is
  the copy, which has the key \<^verbatim>\<open>main.dart\<close> with a truthy content, the default one
  when the original has no truthy \<^verbatim>\<open>main.dart\<close>. Called without \<^verbatim>\<open>singleOnly\<close>,
  the payload has the fields \<^verbatim>\<open>sources\<close>, which is this copy, and \<^verbatim>\<open>source\<close>;
  called with \<^verbatim>\<open>singleOnly\<close>, it has the field \<^verbatim>\<open>source\<close> alone. In both,
  \<^verbatim>\<open>source\<close> is the \<^verbatim>\<open>main.dart\<close> of the copy. Read as a value, the payload
  equals that of the value-level \<open>buildSourcePayload\<close> used by \<open>compileAndRun\<close>.
\<close>

theorem buildSourcePayload_frame:
  assumes "filesRef st < length h"
  shows "snd (fst (buildSourcePayload_store singleOnly (h, st))) = st \<and>
         take (length h) (fst (fst (buildSourcePayload_store singleOnly (h, st)))) = h \<and>
         fst (fst (buildSourcePayload_store singleOnly (h, st))) ! filesRef st = h ! filesRef st \<and>
         length (fst (fst (buildSourcePayload_store singleOnly (h, st)))) = Suc (length h) \<and>
         ''main.dart''
           \<in> set (keys (fst (fst (buildSourcePayload_store singleOnly (h, st))) ! length h)) \<and>
         truthy (getProp (fst (fst (buildSourcePayload_store singleOnly (h, st))) ! length h)
                   ''main.dart'') \<and>
         snd (buildSourcePayload_store False (h, st))
           = [(''sources'', Ref (length h)),
              (''source'', Val (getProp (fst (fst (buildSourcePayload_store False (h, st)))
                                           ! length h) ''main.dart''))] \<and>
         snd (buildSourcePayload_store True (h, st))
           = [(''source'', Val (getProp (fst (fst (buildSourcePayload_store True (h, st)))
                                           ! length h) ''main.dart''))] \<and>
         (files s = h ! filesRef st \<longrightarrow>
            deref (fst (fst (buildSourcePayload_store singleOnly (h, st))))
                  (snd (buildSourcePayload_store singleOnly (h, st)))
              = buildSourcePayload singleOnly s)"
proof (cases "truthy (getProp (JObj (ownProps (h ! filesRef st))) ''main.dart'')")
  case True
  then have m: "''main.dart'' \<in> fst ` set (ownProps (h ! filesRef st))"
    by (rule truthy_getProp_JObj)
  from True have r: "\<And>b. buildSourcePayload_store b (h, st) =
     ((h @ [JObj (ownProps (h ! filesRef st))], st),
      if b then [(''source'', Val (getProp (JObj (ownProps (h ! filesRef st))) ''main.dart''))]
      else [(''sources'', Ref (length h)),
            (''source'', Val (getProp (JObj (ownProps (h ! filesRef st))) ''main.dart''))])"
    by (simp add: buildSourcePayload_store_def Let_def)
  show ?thesis
    using assms True m
    by (simp add: r nth_append deref_def buildSourcePayload_def Let_def keys_def)
next
  case False
  let ?copy = "JObj (AList.update ''main.dart'' (getProp DEFAULT_FILES ''main.dart'')
                  (ownProps (h ! filesRef st)))"
  have g: "getProp ?copy ''main.dart'' = getProp DEFAULT_FILES ''main.dart''"
    by (simp add: getProp_def update_conv')
  from False have r: "\<And>b. buildSourcePayload_store b (h, st) =
     ((h @ [?copy], st),
      if b then [(''source'', Val (getProp DEFAULT_FILES ''main.dart''))]
      else [(''sources'', Ref (length h)),
            (''source'', Val (getProp DEFAULT_FILES ''main.dart''))])"
    by (simp add: buildSourcePayload_store_def Let_def g)
  show ?thesis
    using assms False
    by (simp add: r nth_append deref_def buildSourcePayload_def Let_def keys_update_mem
        keys_def g truthy_default)
qed

theorem buildSourcePayload_frame_witness:
  "filesRef one_file_state < length one_file_store \<and>
   fst (buildSourcePayload_store False (one_file_store, one_file_state))
     = ([JObj [(''utils.dart'', JStr ''int f() => 1;'')],
         JObj [(''utils.dart'', JStr ''int f() => 1;''), (''main.dart'', JStr DEFAULT_main)]],
        one_file_state) \<and>
   snd (buildSourcePayload_store False (one_file_store, one_file_state))
     = [(''sources'', Ref 1), (''source'', Val (JStr DEFAULT_main))] \<and>
   snd (buildSourcePayload_store True (one_file_store, one_file_state))
     = [(''source'', Val (JStr DEFAULT_main))] \<and>
   files (app_of [(''utils.dart'', JStr ''int f() => 1;'')] ''utils.dart'')
     = one_file_store ! filesRef one_file_state \<and>
   buildSourcePayload False (app_of [(''utils.dart'', JStr ''int f() => 1;'')] ''utils.dart'')
     = JObj [(''sources'', JObj [(''utils.dart'', JStr ''int f() => 1;''),
                                 (''main.dart'', JStr DEFAULT_main)]),
             (''source'', JStr DEFAULT_main)]"
  using buildSourcePayload_frame [of one_file_state one_file_store False
          "app_of [(''utils.dart'', JStr ''int f() => 1;'')] ''utils.dart''"]
  by (simp add: one_file_store_def one_file_state_def app_of_def buildSourcePayload_store_def
      getProp_def DEFAULT_FILES_def deref_def Let_def)

end
